theory Spec2Isabelle
  imports Complex_Main "HOL-Library.Multiset"
begin

section \<open>Numbers, vectors and tensors\<close>

text \<open>
  The program computes in C++ \<^verbatim>\<open>double\<close>.  The embedding uses \<^typ>\<open>real\<close>: every
  statement below is about the exact arithmetic of the formulas the code evaluates, not
  about rounding.  A \<^verbatim>\<open>Vector\<close> is a list of reals, a rank-2 tensor or \<^verbatim>\<open>Matrix\<close>
  with known contents is a list of rows; the 56 by 56 class-wide element matrices, which
  the code only ever addresses entry by entry, are functions of the two indices.
\<close>

type_synonym vector = "real list"
type_synonym tensor2 = "real list list"
type_synonym matrix = "nat \<Rightarrow> nat \<Rightarrow> real"

text \<open>
  \<^verbatim>\<open>A("ki") * B("kj")\<close> of BJtensor: contraction over the first index of both, the
  result indexed by the two free indices.
\<close>

definition contract_first :: "tensor2 \<Rightarrow> tensor2 \<Rightarrow> tensor2" where
  "contract_first A B =
     map (\<lambda>i. map (\<lambda>j. sum_list (map (\<lambda>k. A ! k ! i * B ! k ! j) [0..<length A]))
                 [0..<length (hd B)])
       [0..<length (hd A)]"

text \<open>\<^verbatim>\<open>A("ik") * B("kj")\<close>: the matrix product.\<close>

definition contract_inner :: "tensor2 \<Rightarrow> tensor2 \<Rightarrow> tensor2" where
  "contract_inner A B =
     map (\<lambda>i. map (\<lambda>j. sum_list (map (\<lambda>k. A ! i ! k * B ! k ! j) [0..<length B]))
                 [0..<length (hd B)])
       [0..<length A]"

text \<open>\<^verbatim>\<open>symmetrize11\<close>: the symmetric part of a square rank-2 tensor.\<close>

definition symmetrize11 :: "tensor2 \<Rightarrow> tensor2" where
  "symmetrize11 A =
     map (\<lambda>i. map (\<lambda>j. 0.5 * (A ! i ! j + A ! j ! i)) [0..<length A]) [0..<length A]"

text \<open>The determinant of a 3 by 3 tensor (\<^verbatim>\<open>BJtensor::determinant\<close>), by cofactors of the first row.\<close>

definition determinant :: "tensor2 \<Rightarrow> real" where
  "determinant J =
     J ! 0 ! 0 * (J ! 1 ! 1 * J ! 2 ! 2 - J ! 1 ! 2 * J ! 2 ! 1)
   - J ! 0 ! 1 * (J ! 1 ! 0 * J ! 2 ! 2 - J ! 1 ! 2 * J ! 2 ! 0)
   + J ! 0 ! 2 * (J ! 1 ! 0 * J ! 2 ! 1 - J ! 1 ! 1 * J ! 2 ! 0)"

section \<open>The eight-node u-p-U brick\<close>

subsection \<open>Data\<close>

text \<open>
  A stress tensor is read with one-based indices, as \<^verbatim>\<open>sigma(2,3)\<close> in the source.
  The constitutive model behind an integration point is polymorphic (\<^verbatim>\<open>NDMaterial\<close>);
  its virtual methods are the fields of a record of functions over the model's state.
  The tangent tensor, which the source reads only through index contractions, is read
  with four zero-based indices.
\<close>

type_synonym stresstensor = "nat \<Rightarrow> nat \<Rightarrow> real"

record 'm NDMaterial =
  setTrialStrain :: "tensor2 \<Rightarrow> 'm \<Rightarrow> int \<times> 'm"
  getStressTensor :: "'m \<Rightarrow> stresstensor"
  getTangentTensor :: "'m \<Rightarrow> nat \<Rightarrow> nat \<Rightarrow> nat \<Rightarrow> nat \<Rightarrow> real"

record node =
  getCrds :: vector
  getTrialDisp :: vector

record 'm EightNodeBrick_u_p_U =
  getTag :: int
  theNodes :: "node list"
  physicalProperties :: "'m list"
  bf :: vector
  poro :: real
  alpha :: real
  rho_s :: real
  rho_f :: real
  ks :: real
  kf :: real
  pressure :: real
  perm :: "real \<times> real \<times> real"
  load :: vector
  eleQ :: "vector option"
  Ki :: "matrix option"
  isDead :: bool

definition Num_IntegrationPts :: nat where "Num_IntegrationPts = 2"
definition Num_TotalGaussPts :: nat where "Num_TotalGaussPts = 8"
definition Num_Nodes :: nat where "Num_Nodes = 8"
definition Num_Dim :: nat where "Num_Dim = 3"
definition Num_Dof :: nat where "Num_Dof = 7"
definition Num_ElemDof :: nat where "Num_ElemDof = 56"

definition pts :: "real list" where
  "pts = [- 0.577350269189626, 0.577350269189626]"

definition wts :: "real list" where
  "wts = [1.0, 1.0]"

text \<open>
  The three nested loops over \<^verbatim>\<open>GP_c_r\<close>, \<^verbatim>\<open>GP_c_s\<close>, \<^verbatim>\<open>GP_c_t\<close>, in the order
  the source runs them.
\<close>

definition gauss_counters :: "(nat \<times> nat \<times> nat) list" where
  "gauss_counters =
     [(GP_c_r, GP_c_s, GP_c_t).
        GP_c_r \<leftarrow> [0..<Num_IntegrationPts],
        GP_c_s \<leftarrow> [0..<Num_IntegrationPts],
        GP_c_t \<leftarrow> [0..<Num_IntegrationPts]]"

definition gauss_where :: "nat \<times> nat \<times> nat \<Rightarrow> nat" where
  "gauss_where c = (case c of (r, s, t) \<Rightarrow>
     (r * Num_IntegrationPts + s) * Num_IntegrationPts + t)"

subsection \<open>Shape functions and the Jacobian\<close>

text \<open>Row \<open>i\<close> of the lists below is node \<open>i + 1\<close> of the source.\<close>

definition shapeFunction :: "real \<Rightarrow> real \<Rightarrow> real \<Rightarrow> vector" where
  "shapeFunction r1 r2 r3 =
     [(1.0 + r1) * (1.0 + r2) * (1.0 + r3) * 0.125,
      (1.0 - r1) * (1.0 + r2) * (1.0 + r3) * 0.125,
      (1.0 - r1) * (1.0 - r2) * (1.0 + r3) * 0.125,
      (1.0 + r1) * (1.0 - r2) * (1.0 + r3) * 0.125,
      (1.0 + r1) * (1.0 + r2) * (1.0 - r3) * 0.125,
      (1.0 - r1) * (1.0 + r2) * (1.0 - r3) * 0.125,
      (1.0 - r1) * (1.0 - r2) * (1.0 - r3) * 0.125,
      (1.0 + r1) * (1.0 - r2) * (1.0 - r3) * 0.125]"

definition shapeFunctionDerivative :: "real \<Rightarrow> real \<Rightarrow> real \<Rightarrow> tensor2" where
  "shapeFunctionDerivative r1 r2 r3 =
     [[(1.0 + r2) * (1.0 + r3) * 0.125, (1.0 + r1) * (1.0 + r3) * 0.125,
       (1.0 + r1) * (1.0 + r2) * 0.125],
      [- (1.0 + r2) * (1.0 + r3) * 0.125, (1.0 - r1) * (1.0 + r3) * 0.125,
       (1.0 - r1) * (1.0 + r2) * 0.125],
      [- (1.0 - r2) * (1.0 + r3) * 0.125, - (1.0 - r1) * (1.0 + r3) * 0.125,
       (1.0 - r1) * (1.0 - r2) * 0.125],
      [(1.0 - r2) * (1.0 + r3) * 0.125, - (1.0 + r1) * (1.0 + r3) * 0.125,
       (1.0 + r1) * (1.0 - r2) * 0.125],
      [(1.0 + r2) * (1.0 - r3) * 0.125, (1.0 + r1) * (1.0 - r3) * 0.125,
       - (1.0 + r1) * (1.0 + r2) * 0.125],
      [- (1.0 + r2) * (1.0 - r3) * 0.125, (1.0 - r1) * (1.0 - r3) * 0.125,
       - (1.0 - r1) * (1.0 + r2) * 0.125],
      [- (1.0 - r2) * (1.0 - r3) * 0.125, - (1.0 - r1) * (1.0 - r3) * 0.125,
       - (1.0 - r1) * (1.0 - r2) * 0.125],
      [(1.0 - r2) * (1.0 - r3) * 0.125, - (1.0 + r1) * (1.0 - r3) * 0.125,
       - (1.0 + r1) * (1.0 - r2) * 0.125]]"

text \<open>\<^verbatim>\<open>theNodes[i]\<close> for \<open>i\<close> from 0 to \<^verbatim>\<open>Num_Nodes - 1\<close>, as every loop over the nodes reads them.\<close>

definition nodes_of :: "'m EightNodeBrick_u_p_U \<Rightarrow> node list" where
  "nodes_of e = map (\<lambda>i. theNodes e ! i) [0..<Num_Nodes]"

definition getNodesCrds :: "'m EightNodeBrick_u_p_U \<Rightarrow> tensor2" where
  "getNodesCrds e = map (\<lambda>n. map (\<lambda>j. getCrds n ! j) [0..<Num_Dim]) (nodes_of e)"

definition getNodesDisp :: "'m EightNodeBrick_u_p_U \<Rightarrow> tensor2" where
  "getNodesDisp e = map (\<lambda>n. map (\<lambda>j. getTrialDisp n ! j) [0..<Num_Dof]) (nodes_of e)"

definition Jacobian_3D :: "'m EightNodeBrick_u_p_U \<Rightarrow> tensor2 \<Rightarrow> tensor2" where
  "Jacobian_3D e dh = contract_first (getNodesCrds e) dh"

text \<open>
  \<^verbatim>\<open>BJtensor::inverse\<close> is a library routine outside the element; it is the
  parameter \<open>tinverse\<close> of everything that calls it.
\<close>

definition Jacobian_3Dinv ::
  "(tensor2 \<Rightarrow> tensor2) \<Rightarrow> 'm EightNodeBrick_u_p_U \<Rightarrow> tensor2 \<Rightarrow> tensor2" where
  "Jacobian_3Dinv tinverse e dh = tinverse (Jacobian_3D e dh)"

definition dh_Global ::
  "(tensor2 \<Rightarrow> tensor2) \<Rightarrow> 'm EightNodeBrick_u_p_U \<Rightarrow> tensor2 \<Rightarrow> tensor2" where
  "dh_Global tinverse e dh = contract_inner dh (Jacobian_3Dinv tinverse e dh)"

subsection \<open>update\<close>

text \<open>
  One pass of the innermost loop body of \<^verbatim>\<open>update\<close>: the strain at the Gauss point,
  the material's \<^verbatim>\<open>setTrialStrain\<close>, and the line written to \<^verbatim>\<open>std::cerr\<close> when
  the material reports a nonzero status.  The state threaded through the loop is the
  list of materials and the lines printed so far.
\<close>

definition update_point ::
  "(tensor2 \<Rightarrow> tensor2) \<Rightarrow> 'm NDMaterial \<Rightarrow> 'm EightNodeBrick_u_p_U \<Rightarrow> tensor2 \<Rightarrow>
   nat \<times> nat \<times> nat \<Rightarrow> 'm list \<times> string list \<Rightarrow> 'm list \<times> string list" where
  "update_point tinverse ops e total_disp c st =
     (case c of (GP_c_r, GP_c_s, GP_c_t) \<Rightarrow>
      (case st of (mats, cerr) \<Rightarrow>
        let r = pts ! GP_c_r; s = pts ! GP_c_s; t = pts ! GP_c_t;
            where = gauss_where c;
            dh = shapeFunctionDerivative r s t;
            dhGlobal = dh_Global tinverse e dh;
            eps = symmetrize11 (contract_first total_disp dhGlobal);
            res = setTrialStrain ops eps (mats ! where)
        in (mats[where := snd res],
            if fst res \<noteq> 0 then cerr @ [''not converged''] else cerr)))"

text \<open>
  \<^verbatim>\<open>update\<close> returns the status \<^verbatim>\<open>ret\<close>, the lines sent to \<^verbatim>\<open>std::cerr\<close> and
  the element with its materials updated.  \<^verbatim>\<open>ret\<close> is set to 0 at the top and is not
  assigned again.
\<close>

definition update ::
  "(tensor2 \<Rightarrow> tensor2) \<Rightarrow> 'm NDMaterial \<Rightarrow> 'm EightNodeBrick_u_p_U \<Rightarrow>
   int \<times> string list \<times> 'm EightNodeBrick_u_p_U" where
  "update tinverse ops e =
     (let ret = 0;
          total_disp = map (take Num_Dim) (getNodesDisp e);
          st = fold (update_point tinverse ops e total_disp) gauss_counters
                 (physicalProperties e, [])
      in (ret, snd st, e\<lparr>physicalProperties := fst st\<rparr>))"

subsection \<open>Fatal exits\<close>

datatype error =
    IllegalUse
  | SizesIncompatible
  | BulkModulusZero
  | PermeabilityZero
  | OutOfBounds nat

subsection \<open>Quadrature with the Jacobian determinant\<close>

text \<open>
  The quadrature weight of one Gauss point as every integration routine of the element
  computes it: \<^verbatim>\<open>weight = rw * sw * tw * det_of_Jacobian\<close>, the determinant taken from
  \<^verbatim>\<open>Jacobian_3D(dh).determinant()\<close>.
\<close>

definition det_of_Jacobian :: "'m EightNodeBrick_u_p_U \<Rightarrow> nat \<times> nat \<times> nat \<Rightarrow> real" where
  "det_of_Jacobian e c = (case c of (GP_c_r, GP_c_s, GP_c_t) \<Rightarrow>
     determinant (Jacobian_3D e
       (shapeFunctionDerivative (pts ! GP_c_r) (pts ! GP_c_s) (pts ! GP_c_t))))"

definition gauss_weight :: "'m EightNodeBrick_u_p_U \<Rightarrow> nat \<times> nat \<times> nat \<Rightarrow> real" where
  "gauss_weight e c = (case c of (GP_c_r, GP_c_s, GP_c_t) \<Rightarrow>
     wts ! GP_c_r * wts ! GP_c_s * wts ! GP_c_t * det_of_Jacobian e c)"

definition gauss_hp :: "nat \<times> nat \<times> nat \<Rightarrow> vector" where
  "gauss_hp c = (case c of (GP_c_r, GP_c_s, GP_c_t) \<Rightarrow>
     shapeFunction (pts ! GP_c_r) (pts ! GP_c_s) (pts ! GP_c_t))"

text \<open>\<^verbatim>\<open>A += hp("m") * hp("n") * weight\<close> on an 8 by 8 tensor.\<close>

definition add_outer :: "tensor2 \<Rightarrow> vector \<Rightarrow> real \<Rightarrow> tensor2" where
  "add_outer A hp weight =
     map (\<lambda>m. map (\<lambda>n. A ! m ! n + hp ! m * hp ! n * weight) [0..<Num_Nodes]) [0..<Num_Nodes]"

text \<open>\<^verbatim>\<open>A * k\<close>, a tensor times a scalar.\<close>

definition tensor2_times :: "tensor2 \<Rightarrow> real \<Rightarrow> tensor2" where
  "tensor2_times A k = map (map (\<lambda>x. x * k)) A"

definition zero_tensor2 :: "nat \<Rightarrow> nat \<Rightarrow> tensor2" where
  "zero_tensor2 rows cols = replicate rows (replicate cols 0)"

definition getMassTensorMsf :: "'m EightNodeBrick_u_p_U \<Rightarrow> tensor2" where
  "getMassTensorMsf e =
     fold (\<lambda>c Msf. add_outer Msf (gauss_hp c) (gauss_weight e c)) gauss_counters
       (zero_tensor2 Num_Nodes Num_Nodes)"

text \<open>
  \<^verbatim>\<open>getStiffnessTensorP\<close> leaves the program by \<^verbatim>\<open>exit(-1)\<close> when a bulk modulus
  is zero; that is its only test.  Otherwise it returns the integral \<open>Pp\<close> of the
  products of shape functions times \<^verbatim>\<open>oneOverQ\<close>.
\<close>

definition oneOverQ :: "'m EightNodeBrick_u_p_U \<Rightarrow> real" where
  "oneOverQ e = poro e / kf e + (alpha e - poro e) / ks e"

definition integrate_Pp :: "'m EightNodeBrick_u_p_U \<Rightarrow> tensor2" where
  "integrate_Pp e =
     fold (\<lambda>c Pp. add_outer Pp (gauss_hp c) (gauss_weight e c)) gauss_counters
       (zero_tensor2 Num_Nodes Num_Nodes)"

definition getStiffnessTensorP :: "'m EightNodeBrick_u_p_U \<Rightarrow> error + tensor2" where
  "getStiffnessTensorP e =
     (if ks e = 0.0 \<or> kf e = 0.0 then Inl BulkModulusZero
      else Inr (tensor2_times (integrate_Pp e) (oneOverQ e)))"

text \<open>
  \<^verbatim>\<open>getDampTensorC123\<close> leaves the program when a diagonal entry of the permeability
  tensor is zero; that is its only test.  The permeability tensor \<^verbatim>\<open>perm\<close> is
  class-wide in the source and diagonal; the field \<open>perm\<close> of the record is its diagonal
  at the call.  The result is read with four zero-based indices.
\<close>

definition getDampTensorC123 ::
  "(tensor2 \<Rightarrow> tensor2) \<Rightarrow> 'm EightNodeBrick_u_p_U \<Rightarrow>
   error + (nat \<Rightarrow> nat \<Rightarrow> nat \<Rightarrow> nat \<Rightarrow> real)" where
  "getDampTensorC123 tinverse e =
     (case perm e of (perm11, perm22, perm33) \<Rightarrow>
        if perm11 = 0.0 \<or> perm22 = 0.0 \<or> perm33 = 0.0 then Inl PermeabilityZero
        else
          let perm_inv = tinverse [[perm11, 0, 0], [0, perm22, 0], [0, 0, perm33]]
          in Inr (fold (\<lambda>c C123. (\<lambda>k i j m. C123 k i j m
                                     + gauss_hp c ! k * perm_inv ! i ! j * gauss_hp c ! m
                                       * gauss_weight e c))
                    gauss_counters (\<lambda>k i j m. 0)))"

text \<open>The shape function derivatives at a Gauss point.\<close>

definition gauss_dh :: "nat \<times> nat \<times> nat \<Rightarrow> tensor2" where
  "gauss_dh c = (case c of (GP_c_r, GP_c_s, GP_c_t) \<Rightarrow>
     shapeFunctionDerivative (pts ! GP_c_r) (pts ! GP_c_s) (pts ! GP_c_t))"

text \<open>
  \<^verbatim>\<open>getStiffnessTensorG12\<close>: \<^verbatim>\<open>G += dhGlobal("ki") * hp("m") * weight\<close>.  The
  result is read with three zero-based indices.
\<close>

definition getStiffnessTensorG12 ::
  "(tensor2 \<Rightarrow> tensor2) \<Rightarrow> 'm EightNodeBrick_u_p_U \<Rightarrow> nat \<Rightarrow> nat \<Rightarrow> nat \<Rightarrow> real" where
  "getStiffnessTensorG12 tinverse e =
     fold (\<lambda>c G.
             let dh = gauss_dh c;
                 hp = gauss_hp c;
                 dhGlobal = dh_Global tinverse e dh;
                 weight = gauss_weight e c
             in (\<lambda>k i m. G k i m + dhGlobal ! k ! i * hp ! m * weight))
       gauss_counters (\<lambda>k i m. 0)"

text \<open>
  \<^verbatim>\<open>getStiffnessTensorKep\<close>: with the tangent tensor of the material at the Gauss
  point, \<^verbatim>\<open>Kkt = dhGlobal("kj") * Constitutive("ijml")\<close>, then
  \<^verbatim>\<open>Kkt = Kkt("kiml") * dhGlobal("pl") * weight\<close> and \<^verbatim>\<open>Kep = Kep + Kkt\<close>.  The
  result is read with four zero-based indices.
\<close>

definition getStiffnessTensorKep ::
  "(tensor2 \<Rightarrow> tensor2) \<Rightarrow> 'm NDMaterial \<Rightarrow> 'm EightNodeBrick_u_p_U \<Rightarrow>
   nat \<Rightarrow> nat \<Rightarrow> nat \<Rightarrow> nat \<Rightarrow> real" where
  "getStiffnessTensorKep tinverse ops e =
     fold (\<lambda>c Kep.
             let where = gauss_where c;
                 dh = gauss_dh c;
                 dhGlobal = dh_Global tinverse e dh;
                 weight = gauss_weight e c;
                 Constitutive = getTangentTensor ops (physicalProperties e ! where);
                 Kkt = (\<lambda>k i m l. sum_list (map (\<lambda>j. dhGlobal ! k ! j * Constitutive i j m l)
                                                 [0..<Num_Dim]))
             in (\<lambda>k i m p. Kep k i m p
                           + sum_list (map (\<lambda>l. Kkt k i m l * dhGlobal ! p ! l) [0..<Num_Dim])
                             * weight))
       gauss_counters (\<lambda>k i m p. 0)"

text \<open>
  \<^verbatim>\<open>getExForceS\<close> and \<^verbatim>\<open>getExForceF\<close>: \<^verbatim>\<open>Pexs += hp * weight\<close> over the Gauss
  points, then the body force scattered to the three solid (entries 0 to 2 of a node) or
  the three fluid (entries 4 to 6) displacement components; the other entries stay zero.
\<close>

definition integrate_hp :: "'m EightNodeBrick_u_p_U \<Rightarrow> vector" where
  "integrate_hp e =
     fold (\<lambda>c Pex. map (\<lambda>i. Pex ! i + gauss_hp c ! i * gauss_weight e c) [0..<Num_Nodes])
       gauss_counters (replicate Num_Nodes 0)"

definition getExForceS :: "'m EightNodeBrick_u_p_U \<Rightarrow> vector" where
  "getExForceS e =
     (let Pexs = integrate_hp e
      in concat (map (\<lambda>i. map (\<lambda>j. if j < Num_Dim
                                      then Pexs ! i * bf e ! j * ((1.0 - poro e) * rho_s e)
                                      else 0) [0..<Num_Dof])
                   [0..<Num_Nodes]))"

definition getExForceF :: "'m EightNodeBrick_u_p_U \<Rightarrow> vector" where
  "getExForceF e =
     (let Pexf = integrate_hp e
      in concat (map (\<lambda>i. map (\<lambda>j. if 4 \<le> j
                                      then Pexf ! i * bf e ! (j - 4) * (poro e * rho_f e)
                                      else 0) [0..<Num_Dof])
                   [0..<Num_Nodes]))"

subsection \<open>Stiffness, resisting force\<close>

text \<open>
  \<^verbatim>\<open>getStiff\<close> scatters three tensors into the class-wide matrix \<^verbatim>\<open>K\<close>.  The
  values of \<^verbatim>\<open>getStiffnessTensorKep\<close> and \<^verbatim>\<open>getStiffnessTensorG12\<close> at the call,
  which come from the material tangents and the tensor library, are the record below,
  indexed from one as in the source; neither routine has a fatal exit.  The third tensor
  is the value of \<^verbatim>\<open>getStiffnessTensorP\<close>.
\<close>

record stiffness_tensors =
  tKep :: "nat \<Rightarrow> nat \<Rightarrow> nat \<Rightarrow> nat \<Rightarrow> real"
  tG :: "nat \<Rightarrow> nat \<Rightarrow> nat \<Rightarrow> real"

text \<open>The record as \<^verbatim>\<open>getStiff\<close> obtains it from the two routines.\<close>

definition stiffness_tensors_of ::
  "(tensor2 \<Rightarrow> tensor2) \<Rightarrow> 'm NDMaterial \<Rightarrow> 'm EightNodeBrick_u_p_U \<Rightarrow> stiffness_tensors" where
  "stiffness_tensors_of tinverse ops e =
     \<lparr>tKep = (\<lambda>i m n j. getStiffnessTensorKep tinverse ops e (i - 1) (m - 1) (n - 1) (j - 1)),
      tG = (\<lambda>i m j. getStiffnessTensorG12 tinverse e (i - 1) (m - 1) (j - 1))\<rparr>"

definition set_entry :: "matrix \<Rightarrow> nat \<Rightarrow> nat \<Rightarrow> real \<Rightarrow> matrix" where
  "set_entry A r c v = A(r := (A r)(c := v))"

definition fill_Kep :: "stiffness_tensors \<Rightarrow> matrix \<Rightarrow> matrix" where
  "fill_Kep ts =
     fold (\<lambda>(i, j, m, n) A.
             set_entry A (i * Num_Dof + m) (j * Num_Dof + n) (tKep ts (i + 1) (m + 1) (n + 1) (j + 1)))
       [(i, j, m, n). i \<leftarrow> [0..<Num_Nodes], j \<leftarrow> [0..<Num_Nodes],
                      m \<leftarrow> [0..<Num_Dim], n \<leftarrow> [0..<Num_Dim]]"

definition fill_G1 :: "stiffness_tensors \<Rightarrow> real \<Rightarrow> real \<Rightarrow> matrix \<Rightarrow> matrix" where
  "fill_G1 ts alf por =
     fold (\<lambda>(i, j, m) A.
             set_entry
               (set_entry A (i * Num_Dof + m) (j * Num_Dof + 3)
                  (- tG ts (i + 1) (m + 1) (j + 1) * (alf - por)))
               (j * Num_Dof + 3) (i * Num_Dof + m)
               (- tG ts (i + 1) (m + 1) (j + 1) * (alf - por)))
       [(i, j, m). i \<leftarrow> [0..<Num_Nodes], j \<leftarrow> [0..<Num_Nodes], m \<leftarrow> [0..<Num_Dim]]"

definition fill_P :: "tensor2 \<Rightarrow> matrix \<Rightarrow> matrix" where
  "fill_P tP =
     fold (\<lambda>(i, j) A. set_entry A (i * Num_Dof + 3) (j * Num_Dof + 3) (- (tP ! i ! j)))
       [(i, j). i \<leftarrow> [0..<Num_Nodes], j \<leftarrow> [0..<Num_Nodes]]"

definition fill_G2 :: "stiffness_tensors \<Rightarrow> real \<Rightarrow> matrix \<Rightarrow> matrix" where
  "fill_G2 ts por =
     fold (\<lambda>(i, j, m) A.
             set_entry
               (set_entry A (i * Num_Dof + m + 4) (j * Num_Dof + 3)
                  (- tG ts (i + 1) (m + 1) (j + 1) * por))
               (j * Num_Dof + 3) (i * Num_Dof + m + 4)
               (- tG ts (i + 1) (m + 1) (j + 1) * por))
       [(i, j, m). i \<leftarrow> [0..<Num_Nodes], j \<leftarrow> [0..<Num_Nodes], m \<leftarrow> [0..<Num_Dim]]"

text \<open>The four loop nests of \<^verbatim>\<open>getStiff\<close>, in their order: Kep, G1, P, G2.\<close>

definition fill_K ::
  "stiffness_tensors \<Rightarrow> tensor2 \<Rightarrow> 'm EightNodeBrick_u_p_U \<Rightarrow> matrix \<Rightarrow> matrix" where
  "fill_K ts tP e K =
     fill_G2 ts (poro e) (fill_P tP (fill_G1 ts (alpha e) (poro e) (fill_Kep ts K)))"

text \<open>
  \<^verbatim>\<open>getStiff\<close> reads and writes the class-wide \<^verbatim>\<open>K\<close> and the element's cache
  \<^verbatim>\<open>Ki\<close>; it returns the matrix it hands back, the new \<^verbatim>\<open>K\<close> and the element.
\<close>

definition getStiff ::
  "int \<Rightarrow> stiffness_tensors \<Rightarrow> matrix \<Rightarrow> 'm EightNodeBrick_u_p_U \<Rightarrow>
   error + matrix \<times> matrix \<times> 'm EightNodeBrick_u_p_U" where
  "getStiff Ki_flag ts K e =
     (if Ki_flag \<noteq> 0 \<and> Ki_flag \<noteq> 1 then Inl IllegalUse
      else if Ki_flag = 0 \<and> Ki e \<noteq> None then Inr (the (Ki e), K, e)
      else (case getStiffnessTensorP e of
              Inl err \<Rightarrow> Inl err
            | Inr tP \<Rightarrow>
                let K' = fill_K ts tP e K
                in if Ki_flag = 1 then Inr (K', K', e)
                   else Inr (K', K', e\<lparr>Ki := Some K'\<rparr>)))"

text \<open>The class-wide \<^verbatim>\<open>K\<close> after \<^verbatim>\<open>getStiff(1)\<close> has run to its end.\<close>

definition stored_K :: "stiffness_tensors \<Rightarrow> 'm EightNodeBrick_u_p_U \<Rightarrow> matrix \<Rightarrow> matrix" where
  "stored_K ts e K = fill_K ts (tensor2_times (integrate_Pp e) (oneOverQ e)) e K"

text \<open>
  \<^verbatim>\<open>dead_srf\<close>, the stiffness reduction factor of deactivated elements, is a static
  member of the base class \<^verbatim>\<open>Element\<close>; it is a parameter here.
\<close>

definition getTangentStiff ::
  "real \<Rightarrow> stiffness_tensors \<Rightarrow> matrix \<Rightarrow> 'm EightNodeBrick_u_p_U \<Rightarrow>
   error + matrix \<times> matrix \<times> 'm EightNodeBrick_u_p_U" where
  "getTangentStiff dead_srf ts K e =
     (case getStiff 1 ts K e of
        Inl err \<Rightarrow> Inl err
      | Inr (retval, K', e') \<Rightarrow>
          Inr (if isDead e then (\<lambda>r c. retval r c * dead_srf) else retval, K', e'))"

text \<open>
  \<^verbatim>\<open>Vector::addMatrixVector(thisFact, m, v, otherFact)\<close> and
  \<^verbatim>\<open>Vector::addVector(thisFact, other, otherFact)\<close> of the program's linear algebra
  classes, with their documented meaning: \<open>this = thisFact * this + otherFact * m * v\<close>
  and \<open>this = thisFact * this + otherFact * other\<close>.
\<close>

definition addMatrixVector :: "real \<Rightarrow> vector \<Rightarrow> matrix \<Rightarrow> vector \<Rightarrow> real \<Rightarrow> vector" where
  "addMatrixVector thisFact this m v otherFact =
     map (\<lambda>i. thisFact * this ! i
               + otherFact * sum_list (map (\<lambda>j. m i j * v ! j) [0..<length v]))
       [0..<length this]"

definition addVector :: "real \<Rightarrow> vector \<Rightarrow> vector \<Rightarrow> real \<Rightarrow> vector" where
  "addVector thisFact this other otherFact =
     map (\<lambda>i. thisFact * this ! i + otherFact * other ! i) [0..<length this]"

definition nodal_vector :: "'m EightNodeBrick_u_p_U \<Rightarrow> vector" where
  "nodal_vector e =
     concat (map (\<lambda>n. map (\<lambda>j. getTrialDisp n ! j) [0..<Num_Dof]) (nodes_of e))"

text \<open>
  \<^verbatim>\<open>getResistingForce\<close>: the loop over the nodes leaves the program when a node's
  trial displacement has not \<^verbatim>\<open>Num_Dof\<close> entries; then \<open>P = K u\<close> with the
  class-wide \<^verbatim>\<open>K\<close> that \<^verbatim>\<open>getTangentStiff\<close> has just filled, the element load and
  \<^verbatim>\<open>eleQ\<close> are subtracted when present, and a dead element scales the result.
\<close>

definition getResistingForce ::
  "real \<Rightarrow> stiffness_tensors \<Rightarrow> matrix \<Rightarrow> 'm EightNodeBrick_u_p_U \<Rightarrow>
   error + vector \<times> matrix \<times> 'm EightNodeBrick_u_p_U" where
  "getResistingForce dead_srf ts K e =
     (let P0 = replicate Num_ElemDof 0 in
      if list_ex (\<lambda>n. length (getTrialDisp n) \<noteq> Num_Dof) (nodes_of e)
      then Inl SizesIncompatible
      else (case getTangentStiff dead_srf ts K e of
              Inl err \<Rightarrow> Inl err
            | Inr (retval, K', e') \<Rightarrow>
                let u = nodal_vector e;
                    P1 = addMatrixVector 0.0 P0 K' u 1.0;
                    P2 = (if load e \<noteq> [] then addVector 1.0 P1 (load e) (- 1.0) else P1);
                    P3 = (case eleQ e of None \<Rightarrow> P2 | Some q \<Rightarrow> addVector 1.0 P2 q (- 1.0));
                    P4 = (if isDead e then map (\<lambda>x. x * dead_srf) P3 else P3)
                in Inr (P4, K', e')))"

text \<open>
  What the specification says \<^verbatim>\<open>getResistingForce\<close> returns: \<open>K u\<close> minus the
  applied load, the load vector and the self-weight load \<^verbatim>\<open>eleQ\<close>.
\<close>

definition spec_resistingForce :: "matrix \<Rightarrow> vector \<Rightarrow> vector \<Rightarrow> vector option \<Rightarrow> vector" where
  "spec_resistingForce K u ld q =
     map (\<lambda>i. sum_list (map (\<lambda>j. K i j * u ! j) [0..<Num_ElemDof])
               - (if ld = [] then 0 else ld ! i)
               - (case q of None \<Rightarrow> 0 | Some qv \<Rightarrow> qv ! i))
       [0..<Num_ElemDof]"

subsection \<open>Recorder responses\<close>

datatype information = NoInformation | InfoVector vector | InfoMatrix matrix

text \<open>
  \<^verbatim>\<open>Information::setVector\<close> and \<^verbatim>\<open>setMatrix\<close> store the value in the
  information object the recorder allocated and return 0.
\<close>

definition setVector :: "vector \<Rightarrow> information \<Rightarrow> int \<times> information" where
  "setVector v eleInfo = (0, InfoVector v)"

definition setMatrix :: "matrix \<Rightarrow> information \<Rightarrow> int \<times> information" where
  "setMatrix m eleInfo = (0, InfoMatrix m)"

text \<open>
  Responses 1 to 4 hand on what \<^verbatim>\<open>getResistingForce\<close>, \<^verbatim>\<open>getTangentStiff\<close>,
  \<^verbatim>\<open>getMass\<close> and \<^verbatim>\<open>getDamp\<close> return at the call; these four values are a
  parameter of \<^verbatim>\<open>getResponse\<close>.
\<close>

record formed =
  resistingForce :: vector
  tangentStiff :: matrix
  mass :: matrix
  damp :: matrix

definition getGaussPts :: "'m EightNodeBrick_u_p_U \<Rightarrow> tensor2" where
  "getGaussPts e =
     map (\<lambda>c. map (\<lambda>j. sum_list (map (\<lambda>i. gauss_hp c ! i * getCrds (theNodes e ! i) ! j)
                                     [0..<Num_Nodes]))
                 [0..<Num_Dim])
       gauss_counters"

text \<open>The body of the loop of response 5: six entries per Gauss point.\<close>

definition stress_entries :: "stresstensor \<Rightarrow> vector" where
  "stress_entries sigma =
     [sigma 1 1, sigma 2 2, sigma 3 3, sigma 2 3, sigma 3 1, sigma 2 3]"

definition getResponse ::
  "'m NDMaterial \<Rightarrow> formed \<Rightarrow> int \<Rightarrow> information \<Rightarrow> 'm EightNodeBrick_u_p_U \<Rightarrow>
   int \<times> information" where
  "getResponse ops fm responseID eleInfo e =
     (if responseID = 1 then setVector (resistingForce fm) eleInfo
      else if responseID = 2 then setMatrix (tangentStiff fm) eleInfo
      else if responseID = 3 then setMatrix (mass fm) eleInfo
      else if responseID = 4 then setMatrix (damp fm) eleInfo
      else if responseID = 5 then
        setVector
          (concat (map (\<lambda>i. stress_entries (getStressTensor ops (physicalProperties e ! i)))
                     [0..<Num_TotalGaussPts]))
          eleInfo
      else if responseID = 6 then setVector (concat (getGaussPts e)) eleInfo
      else (- 1, eleInfo))"

text \<open>
  The six stress components of a Gauss point in the order the comments of the source
  name them: xx, yy, zz, yz, zx, xy.
\<close>

definition spec_stress_entries :: "stresstensor \<Rightarrow> vector" where
  "spec_stress_entries sigma =
     [sigma 1 1, sigma 2 2, sigma 3 3, sigma 2 3, sigma 3 1, sigma 1 2]"

subsection \<open>Sending and receiving the element\<close>

text \<open>
  A channel holds, per slot, the doubles last sent to it.  \<^verbatim>\<open>sendSelf\<close> and
  \<^verbatim>\<open>recvSelf\<close> of the element have the body \<^verbatim>\<open>return 0;\<close>.
\<close>

type_synonym channel = "nat \<rightharpoonup> real list"

definition sendSelf :: "channel \<Rightarrow> 'm EightNodeBrick_u_p_U \<Rightarrow> int \<times> channel" where
  "sendSelf comm e = (0, comm)"

definition recvSelf ::
  "channel \<Rightarrow> 'm EightNodeBrick_u_p_U \<Rightarrow> int \<times> 'm EightNodeBrick_u_p_U" where
  "recvSelf comm e = (0, e)"

section \<open>Radau beam integration\<close>

text \<open>
  The caller's array is a list of its length; a store or a read-modify-write at an index
  the array does not have is an error of the model (the C++ behaviour is undefined).
  \<open>assign\<close> runs the assignments of one \<^verbatim>\<open>case\<close> in order.
\<close>

definition store :: "nat \<times> real \<Rightarrow> error + vector \<Rightarrow> error + vector" where
  "store iv a =
     (case a of
        Inl err \<Rightarrow> Inl err
      | Inr xs \<Rightarrow> if fst iv < length xs then Inr (xs[fst iv := snd iv]) else Inl (OutOfBounds (fst iv)))"

definition assign :: "(nat \<times> real) list \<Rightarrow> vector \<Rightarrow> error + vector" where
  "assign ivs xs = fold store ivs (Inr xs)"

definition modify :: "(real \<Rightarrow> real) \<Rightarrow> nat \<Rightarrow> error + vector \<Rightarrow> error + vector" where
  "modify f i a =
     (case a of
        Inl err \<Rightarrow> Inl err
      | Inr xs \<Rightarrow> if i < length xs then Inr (xs[i := f (xs ! i)]) else Inl (OutOfBounds i))"

definition section_weights_table :: "nat \<Rightarrow> (nat \<times> real) list" where
  "section_weights_table numSections =
     (if numSections = 1 then
        [(0, 2.0)]
      else if numSections = 2 then
        [(0, 0.5), (1, 1.5)]
      else if numSections = 3 then
        [(1, 0.2222222222), (2, 1.024971652), (3, 0.7528061254)]
      else if numSections = 4 then
        [(1, 0.125), (2, 0.6576886399), (3, 0.7763869376), (4, 0.4409244223)]
      else if numSections = 5 then
        [(1, 0.08), (2, 0.4462078021), (3, 0.6236530459), (4, 0.5627120302), (5, 0.2874271215)]
      else if numSections = 6 then
        [(1, 0.05555555555), (2, 0.3196407532), (3, 0.4853871884), (4, 0.5209267831),
         (5, 0.4169013343), (6, 0.2015883852)]
      else if numSections = 7 then
        [(1, 0.04081632653), (2, 0.2392274892), (3, 0.3809498736), (4, 0.4471098290),
         (5, 0.4247037790), (6, 0.3182042314), (7, 0.1489884711)]
      else if numSections = 8 then
        [(1, 0.03125), (2, 0.1853581548), (3, 0.3041306206), (4, 0.3765175453),
         (5, 0.3915721674), (6, 0.3470147956), (7, 0.2496479013), (8, 0.1145088147)]
      else if numSections = 9 then
        [(1, 0.02469135802), (2, 0.1476540190), (3, 0.2471893782), (4, 0.3168437756),
         (5, 0.3482730027), (6, 0.3376939669), (7, 0.2863866963), (8, 0.2005532980),
         (9, 0.09071450492)]
      else if numSections = 10 then
        [(1, 0.02), (2, 0.1202966705), (3, 0.2042701318), (4, 0.2681948378), (5, 0.3058592877),
         (6, 0.3135824572), (7, 0.2906101648), (8, 0.2391934317), (9, 0.1643760127),
         (10, 0.07361700548)]
      else [])"

definition getSectionWeights :: "nat \<Rightarrow> real \<Rightarrow> vector \<Rightarrow> error + vector" where
  "getSectionWeights numSections L wt =
     fold (modify (\<lambda>w. w * 0.5)) [0..<numSections]
       (assign (section_weights_table numSections) wt)"

definition section_locations_table :: "nat \<Rightarrow> (nat \<times> real) list" where
  "section_locations_table numSections =
     (if numSections = 1 then
        [(0, - 1.0)]
      else if numSections = 2 then
        [(0, - 1.0), (1, 0.3333333333)]
      else if numSections = 3 then
        [(0, - 1.0), (1, - 0.2898979485), (2, 0.6898979485)]
      else if numSections = 4 then
        [(0, - 1.0), (1, - 0.5753189235), (2, 0.1810662711), (3, 0.8228240809)]
      else if numSections = 5 then
        [(0, - 1.0), (1, - 0.7204802713), (2, - 0.1671808647), (3, 0.4463139727),
         (4, 0.8857916077)]
      else if numSections = 6 then
        [(0, - 1.0), (1, - 0.8029298284), (2, - 0.3909285467), (3, 0.1240503795),
         (4, 0.6039731642), (5, 0.9203802858)]
      else if numSections = 7 then
        [(0, - 1.0), (1, - 0.8538913426), (2, - 0.5384677240), (3, - 0.1173430375),
         (4, 0.3260306194), (5, 0.7038428006), (6, 0.9413671456)]
      else if numSections = 8 then
        [(0, - 1.0), (1, - 0.8874748789), (2, - 0.6395186165), (3, - 0.2947505657),
         (4, 0.09430725266), (5, 0.4684203544), (6, 0.7706418936), (7, 0.9550412271)]
      else if numSections = 9 then
        [(0, - 1.0), (1, - 0.9107320894), (2, - 0.7112674859), (3, - 0.4263504857),
         (4, - 0.09037336960), (5, 0.2561356708), (6, 0.5713830412), (7, 0.8173527842),
         (8, 0.9644401697)]
      else if numSections = 10 then
        [(0, - 1.0), (1, - 0.9274843742), (2, - 0.7638420424), (3, - 0.5256460303),
         (4, - 0.2362344693), (5, 0.07605919783), (6, 0.3806648401), (7, 0.6477666876),
         (8, 0.8512252205), (9, 0.9711751807)]
      else [])"

definition getSectionLocations :: "nat \<Rightarrow> real \<Rightarrow> vector \<Rightarrow> error + vector" where
  "getSectionLocations numSections L xi =
     fold (modify (\<lambda>x. 0.5 * (x + 1.0))) [0..<numSections]
       (assign (section_locations_table numSections) xi)"

section \<open>Cross-section resultants and stiffness\<close>

record CrossSectionKR =
  rData :: "real list"
  kData :: "real list"

text \<open>
  Modelled from the spec: \<^verbatim>\<open>CommParameters::sendDoubles\<close> and
  \<^verbatim>\<open>CommParameters::receiveDoubles\<close> are not among the source files.  The
  specification says the numeric state is serialized keyed by small integer slot
  identifiers: sending stores four doubles under the slot of the \<^verbatim>\<open>CommMetaData\<close>,
  receiving reads them back into the four references and reports a negative status, the
  references untouched, when the slot holds nothing of that shape.
\<close>

definition sendDoubles ::
  "real \<Rightarrow> real \<Rightarrow> real \<Rightarrow> real \<Rightarrow> nat \<Rightarrow> channel \<Rightarrow> int \<times> channel" where
  "sendDoubles a b c d pos comm = (0, comm(pos \<mapsto> [a, b, c, d]))"

text \<open>
  Modelled from the spec: \<^verbatim>\<open>CommParameters::receiveDoubles\<close>, the reading side of
  the slot-keyed channel; \<open>first\<close> is the index of the first of the four array entries
  the call names.
\<close>

definition receiveDoubles ::
  "real list \<Rightarrow> nat \<Rightarrow> nat \<Rightarrow> channel \<Rightarrow> int \<times> real list" where
  "receiveDoubles xs first pos comm =
     (case comm pos of
        Some [a, b, c, d] \<Rightarrow> (0, xs[first := a, first + 1 := b, first + 2 := c, first + 3 := d])
      | _ \<Rightarrow> (- 1, xs))"

definition sendData :: "channel \<Rightarrow> CrossSectionKR \<Rightarrow> int \<times> channel" where
  "sendData cp s =
     (let r0 = sendDoubles (rData s ! 0) (rData s ! 1) (rData s ! 2) (rData s ! 3) 0 cp;
          r1 = sendDoubles (kData s ! 0) (kData s ! 1) (kData s ! 2) (kData s ! 3) 1 (snd r0);
          r2 = sendDoubles (kData s ! 4) (kData s ! 5) (kData s ! 6) (kData s ! 7) 2 (snd r1);
          r3 = sendDoubles (kData s ! 8) (kData s ! 9) (kData s ! 10) (kData s ! 11) 3 (snd r2);
          r4 = sendDoubles (kData s ! 12) (kData s ! 13) (kData s ! 14) (kData s ! 15) 4 (snd r3)
      in (fst r0 + fst r1 + fst r2 + fst r3 + fst r4, snd r4))"

definition recvData :: "channel \<Rightarrow> CrossSectionKR \<Rightarrow> int \<times> CrossSectionKR" where
  "recvData cp s =
     (let r0 = receiveDoubles (rData s) 0 0 cp;
          r1 = receiveDoubles (kData s) 0 1 cp;
          r2 = receiveDoubles (snd r1) 4 2 cp;
          r3 = receiveDoubles (snd r2) 8 3 cp;
          r4 = receiveDoubles (snd r3) 12 4 cp
      in (fst r0 + fst r1 + fst r2 + fst r3 + fst r4,
          s\<lparr>rData := snd r0, kData := snd r4\<rparr>))"

section \<open>The state container of a constitutive model\<close>

text \<open>
  Modelled from the spec: the bodies of \<^verbatim>\<open>J2Plasticity::commitState\<close>,
  \<^verbatim>\<open>revertToLastCommit\<close> and of the stress integration are not among the source
  files (only the class declaration is).  The definitions below follow the
  specification's data model and its state-container contract: the integration point
  state has committed and trial strain, stress and internal variables and the tangent
  operator; \<open>commit\<close> copies trial to committed, \<open>revert\<close> copies committed to trial, both
  always succeed; \<open>getStress\<close> and \<open>getTangent\<close> are pure reads of the trial stress and
  the tangent operator.  The contract of \<open>revert\<close> asks that a fresh \<open>getTangent\<close>
  after it returns the last committed value: the container therefore keeps, beside the
  tangent operator the last \<open>setTrialStrain\<close> computed, the tangent operator as it was
  at the last commit.
\<close>

record ('t, 'v, 'd) IntegrationPointState =
  committedStrain :: 't
  committedStress :: 't
  committedInternalVars :: 'v
  trialStrain :: 't
  trialStress :: 't
  trialInternalVars :: 'v
  tangentOperator :: 'd
  committedTangent :: 'd

text \<open>
  Modelled from the spec: \<open>commit\<close> copies trial to committed, the tangent operator
  with the rest, and succeeds.
\<close>

definition commitState ::
  "('t, 'v, 'd) IntegrationPointState \<Rightarrow> int \<times> ('t, 'v, 'd) IntegrationPointState" where
  "commitState s =
     (0, s\<lparr>committedStrain := trialStrain s, committedStress := trialStress s,
            committedInternalVars := trialInternalVars s,
            committedTangent := tangentOperator s\<rparr>)"

text \<open>
  Modelled from the spec: \<open>revert\<close> copies committed to trial, the tangent operator
  with the rest, leaves committed as it is and succeeds.
\<close>

definition revertToLastCommit ::
  "('t, 'v, 'd) IntegrationPointState \<Rightarrow> int \<times> ('t, 'v, 'd) IntegrationPointState" where
  "revertToLastCommit s =
     (0, s\<lparr>trialStrain := committedStrain s, trialStress := committedStress s,
            trialInternalVars := committedInternalVars s,
            tangentOperator := committedTangent s\<rparr>)"

text \<open>Modelled from the spec: \<open>getStress\<close> is a pure read of the trial stress.\<close>

definition getStress :: "('t, 'v, 'd) IntegrationPointState \<Rightarrow> 't" where
  "getStress s = trialStress s"

text \<open>Modelled from the spec: \<open>getTangent\<close> is a pure read of the tangent operator.\<close>

definition getTangent :: "('t, 'v, 'd) IntegrationPointState \<Rightarrow> 'd" where
  "getTangent s = tangentOperator s"




section \<open>Assembly of the global system\<close>

text \<open>
  The accumulators of the program are doubles.  The sum of two doubles is the exact sum
  rounded to the nearest number with a significand of 53 bits, a tie going to the even
  significand (IEEE 754 binary64; overflow and subnormal numbers are left aside).  The
  assembly below takes the addition of its accumulators as a parameter: \<open>(+)\<close> is
  exact arithmetic, \<open>binary64_add\<close> the arithmetic of doubles.
\<close>

definition ties_to_even :: "real \<Rightarrow> int" where
  "ties_to_even y =
     (let f = \<lfloor>y\<rfloor> in
      if y - of_int f < 1 / 2 then f
      else if 1 / 2 < y - of_int f then f + 1
      else if even f then f else f + 1)"

definition binary64_round :: "real \<Rightarrow> real" where
  "binary64_round x =
     (if x = 0 then 0
      else let ulp = 2 powi (\<lfloor>log 2 \<bar>x\<bar>\<rfloor> - 52)
           in of_int (ties_to_even (x / ulp)) * ulp)"

definition binary64_add :: "real \<Rightarrow> real \<Rightarrow> real" where
  "binary64_add a b = binary64_round (a + b)"

text \<open>
  Modelled from the spec: the bodies of \<^verbatim>\<open>DOF_Group::addMtoTang\<close>,
  \<^verbatim>\<open>addPtoUnbalance\<close> and of the formation loops are not among the source files
  (only the declarations are).  Following the specification, the global system maps
  pairs of equation numbers to accumulated tangent coefficients and equation numbers to
  accumulated residual values, both zero at the start of a formation; an element brings
  its local matrix, its local vector and the equation number of each local degree of
  freedom, a number below \<^verbatim>\<open>START_EQN_NUM\<close> being the sentinel of a constrained degree
  of freedom; every local entry whose equation numbers are valid is added to the global
  entry.
\<close>

record element_contribution =
  localTangent :: matrix
  localResidual :: vector
  equationNumbers :: "int list"

text \<open>
  Modelled from the spec: the origin of the equation numbers; the class comment of
  \<^verbatim>\<open>DOF_Group\<close> names it \<^verbatim>\<open>START_EQN_NUM\<close>, its value is not in the sources.
\<close>

definition START_EQN_NUM :: int where
  "START_EQN_NUM = 0"

text \<open>
  Modelled from the spec: one local row and column pair of the tangent, added to the
  global entry when both equation numbers are valid.
\<close>

definition addTangentEntry ::
  "(real \<Rightarrow> real \<Rightarrow> real) \<Rightarrow> element_contribution \<Rightarrow> nat \<times> nat \<Rightarrow>
   (int \<times> int \<Rightarrow> real) \<Rightarrow> (int \<times> int \<Rightarrow> real)" where
  "addTangentEntry add el rc A =
     (let r = equationNumbers el ! fst rc; c = equationNumbers el ! snd rc in
      if START_EQN_NUM \<le> r \<and> START_EQN_NUM \<le> c
      then A((r, c) := add (A (r, c)) (localTangent el (fst rc) (snd rc)))
      else A)"

text \<open>Modelled from the spec: the local row and column pairs of an element, row by row.\<close>

definition local_pairs :: "element_contribution \<Rightarrow> (nat \<times> nat) list" where
  "local_pairs el =
     [(r, c). r \<leftarrow> [0..<length (equationNumbers el)],
              c \<leftarrow> [0..<length (equationNumbers el)]]"

text \<open>Modelled from the spec: all row and column pairs of one element.\<close>

definition addElementTangent ::
  "(real \<Rightarrow> real \<Rightarrow> real) \<Rightarrow> element_contribution \<Rightarrow>
   (int \<times> int \<Rightarrow> real) \<Rightarrow> (int \<times> int \<Rightarrow> real)" where
  "addElementTangent add el A = fold (addTangentEntry add el) (local_pairs el) A"

text \<open>
  Modelled from the spec: one local entry of the residual, added to the global entry when
  its equation number is valid.
\<close>

definition addResidualEntry ::
  "(real \<Rightarrow> real \<Rightarrow> real) \<Rightarrow> element_contribution \<Rightarrow> nat \<Rightarrow>
   (int \<Rightarrow> real) \<Rightarrow> (int \<Rightarrow> real)" where
  "addResidualEntry add el r b =
     (let g = equationNumbers el ! r in
      if START_EQN_NUM \<le> g then b(g := add (b g) (localResidual el ! r)) else b)"

text \<open>Modelled from the spec: all entries of the residual of one element.\<close>

definition addElementResidual ::
  "(real \<Rightarrow> real \<Rightarrow> real) \<Rightarrow> element_contribution \<Rightarrow> (int \<Rightarrow> real) \<Rightarrow> (int \<Rightarrow> real)" where
  "addElementResidual add el b =
     fold (addResidualEntry add el) [0..<length (equationNumbers el)] b"

text \<open>
  Modelled from the spec: \<open>formTangent\<close> starts from zero and visits the active
  elements in the order of the list.
\<close>

definition formTangent ::
  "(real \<Rightarrow> real \<Rightarrow> real) \<Rightarrow> element_contribution list \<Rightarrow> (int \<times> int \<Rightarrow> real)" where
  "formTangent add els = fold (addElementTangent add) els (\<lambda>_. 0)"

text \<open>
  Modelled from the spec: \<open>formResidual\<close> starts from zero and visits the active
  elements in the order of the list.
\<close>

definition formResidual ::
  "(real \<Rightarrow> real \<Rightarrow> real) \<Rightarrow> element_contribution list \<Rightarrow> (int \<Rightarrow> real)" where
  "formResidual add els = fold (addElementResidual add) els (\<lambda>_. 0)"

text \<open>
  Modelled from the spec: what a global entry receives from one element, the sum of the
  local values of the element whose equation numbers are valid and are those of the
  entry.
\<close>

definition spec_tangent_contribution :: "element_contribution \<Rightarrow> int \<times> int \<Rightarrow> real" where
  "spec_tangent_contribution el p =
     sum_list (map (\<lambda>rc. if START_EQN_NUM \<le> equationNumbers el ! fst rc
                             \<and> START_EQN_NUM \<le> equationNumbers el ! snd rc
                             \<and> (equationNumbers el ! fst rc, equationNumbers el ! snd rc) = p
                          then localTangent el (fst rc) (snd rc) else 0)
                 (local_pairs el))"

text \<open>Modelled from the spec: the same for an entry of the residual.\<close>

definition spec_residual_contribution :: "element_contribution \<Rightarrow> int \<Rightarrow> real" where
  "spec_residual_contribution el g =
     sum_list (map (\<lambda>r. if START_EQN_NUM \<le> equationNumbers el ! r \<and> equationNumbers el ! r = g
                         then localResidual el ! r else 0)
                 [0..<length (equationNumbers el)])"

section \<open>Concrete inputs\<close>

text \<open>
  A brick on the reference cube, its nodes at the corners in the order of the shape
  functions, the first coordinate scaled by \<open>sx\<close>: \<open>sx = 1\<close> is the cube itself,
  \<open>sx = - 1\<close> its mirror image (an inverted element), \<open>sx = 0\<close> a flattened one.  The
  state of its materials is the stress tensor they hold, which \<open>stub_material\<close> reports;
  its \<^verbatim>\<open>setTrialStrain\<close> answers \<open>- 1\<close> to every strain.
\<close>

definition sigma0 :: stresstensor where
  "sigma0 i j = (if i = j then real i else if i + j = 5 then 4 else if i + j = 4 then 5 else 6)"

definition stub_material :: "stresstensor NDMaterial" where
  "stub_material =
     \<lparr>setTrialStrain = (\<lambda>eps m. (- 1, m)), getStressTensor = (\<lambda>m. m),
      getTangentTensor = (\<lambda>m i j k l. if i = k \<and> j = l then 1 else 0)\<rparr>"

definition corner_signs :: "(real \<times> real \<times> real) list" where
  "corner_signs =
     [(1, 1, 1), (- 1, 1, 1), (- 1, - 1, 1), (1, - 1, 1),
      (1, 1, - 1), (- 1, 1, - 1), (- 1, - 1, - 1), (1, - 1, - 1)]"

definition cube_nodes :: "real \<Rightarrow> node list" where
  "cube_nodes sx =
     map (\<lambda>(x, y, z). \<lparr>getCrds = [sx * x, y, z], getTrialDisp = [0, 0, 0, 0, 0, 0, 0]\<rparr>)
       corner_signs"

definition cube_brick :: "real \<Rightarrow> stresstensor EightNodeBrick_u_p_U" where
  "cube_brick sx =
     \<lparr>getTag = 1, theNodes = cube_nodes sx,
      physicalProperties = [sigma0, sigma0, sigma0, sigma0, sigma0, sigma0, sigma0, sigma0],
      bf = [0, 0, 0], poro = 0.4, alpha = 1.0, rho_s = 2.0, rho_f = 1.0, ks = 1000, kf = 100,
      pressure = 0, perm = (1, 1, 1), load = [], eleQ = None, Ki = None, isDead = False\<rparr>"

text \<open>The receiver of a transfer: the brick as its default constructor leaves it.\<close>

definition blank_brick :: "stresstensor EightNodeBrick_u_p_U" where
  "blank_brick =
     \<lparr>getTag = 0, theNodes = [], physicalProperties = [], bf = [0, 0, 0], poro = 0.0,
      alpha = 1.0, rho_s = 0.0, rho_f = 0.0, ks = 0.0, kf = 0.0, pressure = 0.0,
      perm = (0, 0, 0), load = [], eleQ = None, Ki = None, isDead = False\<rparr>"

text \<open>A deactivated brick that carries a unit element load, and two stiffness tensors.\<close>

definition unit_tensors :: stiffness_tensors where
  "unit_tensors = \<lparr>tKep = (\<lambda>i m n j. if i = j \<and> m = n then 1 else 0), tG = (\<lambda>i m j. 1)\<rparr>"

definition dead_loaded_brick :: "stresstensor EightNodeBrick_u_p_U" where
  "dead_loaded_brick = (cube_brick 1)\<lparr>load := replicate Num_ElemDof 1, isDead := True\<rparr>"

text \<open>Two sections: one with distinct entries everywhere, one zeroed.\<close>

definition section_src :: CrossSectionKR where
  "section_src =
     \<lparr>rData = [1, 2, 3, 4],
      kData = [11, 12, 13, 14, 21, 22, 23, 24, 31, 32, 33, 34, 41, 42, 43, 44]\<rparr>"

definition section_zero :: CrossSectionKR where
  "section_zero =
     \<lparr>rData = [0, 0, 0, 0], kData = [0, 0, 0, 0, 0, 0, 0, 0, 0, 0, 0, 0, 0, 0, 0, 0]\<rparr>"



text \<open>
  Three element contributions that share equation numbers 1 and 2; the second degree of
  freedom of the third is constrained.
\<close>

definition contribution_a :: element_contribution where
  "contribution_a =
     \<lparr>localTangent = (\<lambda>r c. if r = c then 2 else - 1), localResidual = [1, 2],
      equationNumbers = [0, 1]\<rparr>"

definition contribution_b :: element_contribution where
  "contribution_b =
     \<lparr>localTangent = (\<lambda>r c. if r = c then 3 else - 2), localResidual = [10, 20],
      equationNumbers = [1, 2]\<rparr>"

definition contribution_c :: element_contribution where
  "contribution_c =
     \<lparr>localTangent = (\<lambda>r c. if r = c then 5 else - 4), localResidual = [100, 200, 300],
      equationNumbers = [2, - 1, 1]\<rparr>"

text \<open>
  An element with one degree of freedom at equation 0 that contributes the value \<open>v\<close>
  to the tangent and to the residual.
\<close>

definition point_load :: "real \<Rightarrow> element_contribution" where
  "point_load v = \<lparr>localTangent = (\<lambda>r c. v), localResidual = [v], equationNumbers = [0]\<rparr>"

section \<open>Properties of the brick\<close>

subsection \<open>Index ranges\<close>

lemma gauss_counters_eq:
  "gauss_counters =
     [(0, 0, 0), (0, 0, 1), (0, 1, 0), (0, 1, 1), (1, 0, 0), (1, 0, 1), (1, 1, 0), (1, 1, 1)]"
  by (simp add: gauss_counters_def Num_IntegrationPts_def upt_rec)

lemma upt_TotalGaussPts: "[0..<Num_TotalGaussPts] = [0, 1, 2, 3, 4, 5, 6, 7]"
  by (simp add: Num_TotalGaussPts_def upt_rec)

lemma upt_Nodes: "[0..<Num_Nodes] = [0, 1, 2, 3, 4, 5, 6, 7]"
  by (simp add: Num_Nodes_def upt_rec)

lemma upt_Dim: "[0..<Num_Dim] = [0, 1, 2]"
  by (simp add: Num_Dim_def upt_rec)

lemma upt_Dof: "[0..<Num_Dof] = [0, 1, 2, 3, 4, 5, 6]"
  by (simp add: Num_Dof_def upt_rec)

lemma upt_3: "[0..<3] = [0, 1, 2]"
  by (simp add: upt_rec)

lemma upt_8: "[0..<8] = [0, 1, 2, 3, 4, 5, 6, 7]"
  by (simp add: upt_rec)

subsection \<open>The status of update\<close>

lemma update_status_zero: "fst (update tinverse ops e) = 0"
  by (simp add: update_def Let_def)

lemma update_point_failing:
  "update_point tinverse stub_material e td c (mats, cerr) =
     (mats[gauss_where c := mats ! gauss_where c], cerr @ [''not converged''])"
  by (simp add: update_point_def stub_material_def Let_def split: prod.splits)

text \<open>
  Claim C1.  An element's \<^verbatim>\<open>update\<close> is to return a nonzero status whenever the
  \<^verbatim>\<open>setTrialStrain\<close> of one of its integration points reports failure.  Here the
  material of every one of the eight Gauss points of the brick answers \<open>- 1\<close>: the brick
  writes ``not converged'' eight times to the error stream and returns the status 0.
\<close>

theorem update_returns_zero_on_material_failure:
  "update tinverse stub_material (cube_brick 1) =
     (0, [''not converged'', ''not converged'', ''not converged'', ''not converged'',
          ''not converged'', ''not converged'', ''not converged'', ''not converged''],
      cube_brick 1)"
  by (simp add: update_def Let_def gauss_counters_eq update_point_failing gauss_where_def
      Num_IntegrationPts_def cube_brick_def)

subsection \<open>The stresses response\<close>

lemma stress_entries_sixth: "stress_entries sigma ! 5 = sigma 2 3"
  by (simp add: stress_entries_def)

lemma stress_entries_first_five: "take 5 (stress_entries sigma) = take 5 (spec_stress_entries sigma)"
  by (simp add: stress_entries_def spec_stress_entries_def)

text \<open>
  Claim C3.  Response 5 (``stresses'') is to give, per Gauss point, the stress components
  xx, yy, zz, yz, zx, xy, the sixth being \<open>sigma(1,2)\<close>.  With the stress \<open>sigma0\<close>
  (xx = 1, yy = 2, zz = 3, yz = 4, zx = 5, xy = 6) at every Gauss point the brick answers
  1, 2, 3, 4, 5, 4: the sixth entry repeats yz.
\<close>

theorem getResponse_stresses_repeats_yz:
  "getResponse stub_material fm 5 eleInfo (cube_brick 1) =
     (0, InfoVector (concat [[1, 2, 3, 4, 5, 4], [1, 2, 3, 4, 5, 4], [1, 2, 3, 4, 5, 4],
                             [1, 2, 3, 4, 5, 4], [1, 2, 3, 4, 5, 4], [1, 2, 3, 4, 5, 4],
                             [1, 2, 3, 4, 5, 4], [1, 2, 3, 4, 5, 4]]))
   \<and> spec_stress_entries sigma0 = [1, 2, 3, 4, 5, 6]"
  by (simp add: getResponse_def setVector_def upt_TotalGaussPts cube_brick_def stress_entries_def
      spec_stress_entries_def stub_material_def sigma0_def)

subsection \<open>The Jacobian determinant in the quadrature\<close>

lemma getNodesCrds_cube:
  "getNodesCrds (cube_brick sx) = map (\<lambda>(x, y, z). [sx * x, y, z]) corner_signs"
  by (simp add: getNodesCrds_def nodes_of_def upt_Nodes upt_Dim cube_brick_def cube_nodes_def
      corner_signs_def)

text \<open>The Jacobian of the scaled cube is the same at every point.\<close>

lemma Jacobian_3D_cube:
  "Jacobian_3D (cube_brick sx) (shapeFunctionDerivative r s t) = [[sx, 0, 0], [0, 1, 0], [0, 0, 1]]"
  apply (simp add: Jacobian_3D_def getNodesCrds_cube corner_signs_def shapeFunctionDerivative_def
      contract_first_def upt_3 upt_8)
  apply (intro conjI)
          apply (simp_all add: field_simps)
  done

lemma det_of_Jacobian_cube: "det_of_Jacobian (cube_brick sx) (r, s, t) = sx"
  by (simp add: det_of_Jacobian_def Jacobian_3D_cube determinant_def)

lemma add_outer_entry:
  "m < Num_Nodes \<Longrightarrow> n < Num_Nodes \<Longrightarrow>
   add_outer A hp weight ! m ! n = A ! m ! n + hp ! m * hp ! n * weight"
  by (simp add: add_outer_def)

lemma fold_add_outer_entry:
  "m < Num_Nodes \<Longrightarrow> n < Num_Nodes \<Longrightarrow>
   fold (\<lambda>c A. add_outer A (hp c) (w c)) cs A0 ! m ! n
     = A0 ! m ! n + sum_list (map (\<lambda>c. hp c ! m * hp c ! n * w c) cs)"
  by (induction cs arbitrary: A0) (simp_all add: add_outer_entry)

lemma zero_tensor2_entry: "m < rows \<Longrightarrow> n < cols \<Longrightarrow> zero_tensor2 rows cols ! m ! n = 0"
  by (simp add: zero_tensor2_def)

lemma getMassTensorMsf_entry:
  "m < Num_Nodes \<Longrightarrow> n < Num_Nodes \<Longrightarrow>
   getMassTensorMsf e ! m ! n
     = sum_list (map (\<lambda>c. gauss_hp c ! m * gauss_hp c ! n * gauss_weight e c) gauss_counters)"
  by (simp add: getMassTensorMsf_def fold_add_outer_entry zero_tensor2_entry)

lemma getStiffnessTensorP_value:
  "ks e \<noteq> 0 \<Longrightarrow> kf e \<noteq> 0 \<Longrightarrow>
   getStiffnessTensorP e = Inr (tensor2_times (integrate_Pp e) (oneOverQ e))"
  by (simp add: getStiffnessTensorP_def)

text \<open>
  The quadrature weights \<^verbatim>\<open>wts\<close> are 1, so the weight of a Gauss point is the
  determinant of the Jacobian there, with its sign.
\<close>

lemma gauss_weight_det:
  "c \<in> set gauss_counters \<Longrightarrow> gauss_weight e c = determinant (Jacobian_3D e (gauss_dh c))"
  by (auto simp add: gauss_counters_eq gauss_weight_def det_of_Jacobian_def gauss_dh_def wts_def)

lemma sum_over_gauss_points:
  "sum_list (map (\<lambda>c. f c * gauss_weight e c) gauss_counters)
   = sum_list (map (\<lambda>c. f c * determinant (Jacobian_3D e (gauss_dh c))) gauss_counters)"
  by (rule arg_cong [where f = sum_list], rule map_cong) (simp_all add: gauss_weight_det)

text \<open>Loops that add a term per Gauss point to a tensor read by indices.\<close>

lemma fold_add3:
  "fold (\<lambda>c G. (\<lambda>k i m. G k i m + f c k i m)) cs G0 k i m
   = (G0 k i m :: real) + sum_list (map (\<lambda>c. f c k i m) cs)"
  by (induction cs arbitrary: G0) simp_all

lemma fold_add4:
  "fold (\<lambda>c G. (\<lambda>k i m p. G k i m p + f c k i m p)) cs G0 k i m p
   = (G0 k i m p :: real) + sum_list (map (\<lambda>c. f c k i m p) cs)"
  by (induction cs arbitrary: G0) simp_all

lemma getStiffnessTensorG12_entry:
  "getStiffnessTensorG12 tinverse e k i m
   = sum_list (map (\<lambda>c. dh_Global tinverse e (gauss_dh c) ! k ! i * gauss_hp c ! m
                          * determinant (Jacobian_3D e (gauss_dh c))) gauss_counters)"
  by (simp add: getStiffnessTensorG12_def Let_def fold_add3 sum_over_gauss_points)

lemma getStiffnessTensorKep_entry:
  "getStiffnessTensorKep tinverse ops e k i m p
   = sum_list (map (\<lambda>c.
       sum_list (map (\<lambda>l.
         sum_list (map (\<lambda>j. dh_Global tinverse e (gauss_dh c) ! k ! j
                              * getTangentTensor ops (physicalProperties e ! gauss_where c) i j m l)
                     [0..<Num_Dim])
         * dh_Global tinverse e (gauss_dh c) ! p ! l) [0..<Num_Dim])
       * determinant (Jacobian_3D e (gauss_dh c))) gauss_counters)"
  by (simp add: getStiffnessTensorKep_def Let_def fold_add4 sum_over_gauss_points)

lemma getDampTensorC123_entry:
  "fst (perm e) \<noteq> 0 \<Longrightarrow> fst (snd (perm e)) \<noteq> 0 \<Longrightarrow> snd (snd (perm e)) \<noteq> 0 \<Longrightarrow>
   \<exists>C. getDampTensorC123 tinverse e = Inr C
     \<and> C k i j m = sum_list (map (\<lambda>c. gauss_hp c ! k
           * tinverse [[fst (perm e), 0, 0], [0, fst (snd (perm e)), 0],
                       [0, 0, snd (snd (perm e))]] ! i ! j
           * gauss_hp c ! m * determinant (Jacobian_3D e (gauss_dh c))) gauss_counters)"
  by (cases "perm e")
    (simp add: getDampTensorC123_def Let_def fold_add4 sum_over_gauss_points)

lemma length_fold_add_outer:
  "length (fold (\<lambda>c A. add_outer A (hp c) (w c)) cs (zero_tensor2 Num_Nodes Num_Nodes)) = Num_Nodes"
  by (induction cs rule: rev_induct) (simp_all add: add_outer_def zero_tensor2_def)

lemma length_row_fold_add_outer:
  "m < Num_Nodes \<Longrightarrow>
   length (fold (\<lambda>c A. add_outer A (hp c) (w c)) cs (zero_tensor2 Num_Nodes Num_Nodes) ! m)
     = Num_Nodes"
  by (induction cs rule: rev_induct) (simp_all add: add_outer_def zero_tensor2_def)

lemma integrate_Pp_entry:
  "m < Num_Nodes \<Longrightarrow> n < Num_Nodes \<Longrightarrow>
   integrate_Pp e ! m ! n
     = sum_list (map (\<lambda>c. gauss_hp c ! m * gauss_hp c ! n
                            * determinant (Jacobian_3D e (gauss_dh c))) gauss_counters)"
  by (simp add: integrate_Pp_def fold_add_outer_entry zero_tensor2_entry sum_over_gauss_points)

lemma getStiffnessTensorP_entry:
  "ks e \<noteq> 0 \<Longrightarrow> kf e \<noteq> 0 \<Longrightarrow> m < Num_Nodes \<Longrightarrow> n < Num_Nodes \<Longrightarrow>
   \<exists>Pp. getStiffnessTensorP e = Inr Pp
     \<and> Pp ! m ! n
       = sum_list (map (\<lambda>c. gauss_hp c ! m * gauss_hp c ! n
                              * determinant (Jacobian_3D e (gauss_dh c))) gauss_counters)
         * oneOverQ e"
  using integrate_Pp_entry [of m n e]
  by (simp add: getStiffnessTensorP_def tensor2_times_def integrate_Pp_def length_fold_add_outer
      length_row_fold_add_outer)

lemma getMassTensorMsf_det_entry:
  "m < Num_Nodes \<Longrightarrow> n < Num_Nodes \<Longrightarrow>
   getMassTensorMsf e ! m ! n
     = sum_list (map (\<lambda>c. gauss_hp c ! m * gauss_hp c ! n
                            * determinant (Jacobian_3D e (gauss_dh c))) gauss_counters)"
  by (simp add: getMassTensorMsf_entry sum_over_gauss_points)

lemma fold_add_vector_entry:
  "m < Num_Nodes \<Longrightarrow>
   fold (\<lambda>c Pex. map (\<lambda>i. Pex ! i + h c ! i * w c) [0..<Num_Nodes]) cs P0 ! m
     = P0 ! m + sum_list (map (\<lambda>c. h c ! m * (w c :: real)) cs)"
  by (induction cs arbitrary: P0) simp_all

lemma integrate_hp_entry:
  "m < Num_Nodes \<Longrightarrow>
   integrate_hp e ! m
     = sum_list (map (\<lambda>c. gauss_hp c ! m * determinant (Jacobian_3D e (gauss_dh c)))
                   gauss_counters)"
  by (simp add: integrate_hp_def fold_add_vector_entry sum_over_gauss_points)

text \<open>Entry \<open>m * n + j\<close> of a vector laid out in rows of length \<open>n\<close>.\<close>

lemma length_concat_rows:
  "(\<And>i. length (f i) = n) \<Longrightarrow> length (concat (map f [0..<M])) = M * n"
  by (induction M) simp_all

lemma concat_rows_nth:
  assumes len: "\<And>i. length (f i) = n" and m: "m < M" and j: "j < n"
  shows "concat (map f [0..<M]) ! (m * n + j) = f m ! j"
  using m
proof (induction M)
  case 0
  then show ?case by simp
next
  case (Suc M)
  have l: "length (concat (map f [0..<M])) = M * n"
    using len by (rule length_concat_rows)
  show ?case
  proof (cases "m < M")
    case True
    then have "Suc m \<le> M" by simp
    then have "Suc m * n \<le> M * n" by (rule mult_le_mono1)
    with j have "m * n + j < M * n" by simp
    with Suc.IH [OF True] l show ?thesis by (simp add: nth_append)
  next
    case False
    with Suc.prems have "m = M" by simp
    with l show ?thesis by (simp add: nth_append)
  qed
qed

lemma nodal_rows_nth:
  assumes m: "m < Num_Nodes" and j: "j < Num_Dof"
  shows "concat (map (\<lambda>i. map (g i) [0..<Num_Dof]) [0..<Num_Nodes]) ! (m * Num_Dof + j) = g m j"
proof -
  have "concat (map (\<lambda>i. map (g i) [0..<Num_Dof]) [0..<Num_Nodes]) ! (m * Num_Dof + j)
        = map (g m) [0..<Num_Dof] ! j"
    by (rule concat_rows_nth [OF _ m j]) simp
  with j show ?thesis by simp
qed

lemma getExForceS_entry:
  "m < Num_Nodes \<Longrightarrow> j < Num_Dim \<Longrightarrow>
   getExForceS e ! (m * Num_Dof + j)
     = sum_list (map (\<lambda>c. gauss_hp c ! m * determinant (Jacobian_3D e (gauss_dh c)))
                   gauss_counters)
       * bf e ! j * ((1 - poro e) * rho_s e)"
proof -
  assume m: "m < Num_Nodes" and j: "j < Num_Dim"
  from j have j': "j < Num_Dof" by (simp add: Num_Dim_def Num_Dof_def)
  from m j show ?thesis
    by (simp add: getExForceS_def Let_def nodal_rows_nth [OF m j'] integrate_hp_entry)
qed

lemma getExForceF_entry:
  "m < Num_Nodes \<Longrightarrow> j < Num_Dim \<Longrightarrow>
   getExForceF e ! (m * Num_Dof + j + 4)
     = sum_list (map (\<lambda>c. gauss_hp c ! m * determinant (Jacobian_3D e (gauss_dh c)))
                   gauss_counters)
       * bf e ! j * (poro e * rho_f e)"
proof -
  assume m: "m < Num_Nodes" and j: "j < Num_Dim"
  from j have j': "j + 4 < Num_Dof" by (simp add: Num_Dim_def Num_Dof_def)
  from m j show ?thesis
    by (simp add: getExForceF_def Let_def nodal_rows_nth [OF m j'] integrate_hp_entry add.assoc)
qed


lemma determinant_cube: "determinant (Jacobian_3D (cube_brick sx) (gauss_dh c)) = sx"
  by (cases c) (simp add: gauss_dh_def Jacobian_3D_cube determinant_def)

text \<open>
  Claim C2, as the code has it.  The element has no test of the Jacobian determinant.  In
  each of its seven integration routines, \<^verbatim>\<open>getMassTensorMsf\<close>,
  \<^verbatim>\<open>getStiffnessTensorP\<close>, \<^verbatim>\<open>getDampTensorC123\<close>, \<^verbatim>\<open>getStiffnessTensorG12\<close>,
  \<^verbatim>\<open>getStiffnessTensorKep\<close>, \<^verbatim>\<open>getExForceS\<close> and \<^verbatim>\<open>getExForceF\<close>, an entry of
  the result is the sum over the eight Gauss points of the integrand times the determinant
  of \<^verbatim>\<open>Jacobian_3D\<close> at the point, with whatever sign the determinant has; in the two
  stiffness tensors the integrand holds the shape function derivatives that
  \<^verbatim>\<open>dh_Global\<close> has multiplied by the inverse of that Jacobian.
  \<^verbatim>\<open>getStiffnessTensorP\<close> ends the program exactly when a bulk modulus is zero and
  \<^verbatim>\<open>getDampTensorC123\<close> exactly when a diagonal permeability is zero, and both return
  the sum otherwise.  \<^verbatim>\<open>update\<close> returns the status 0.
\<close>

theorem quadrature_takes_signed_determinant:
  assumes "m < Num_Nodes" and "n < Num_Nodes" and "j < Num_Dim"
  shows
  "getMassTensorMsf e ! m ! n
     = sum_list (map (\<lambda>c. gauss_hp c ! m * gauss_hp c ! n
                            * determinant (Jacobian_3D e (gauss_dh c))) gauss_counters)
   \<and> (case getStiffnessTensorP e of
         Inl err \<Rightarrow> err = BulkModulusZero \<and> (ks e = 0 \<or> kf e = 0)
       | Inr Pp \<Rightarrow> ks e \<noteq> 0 \<and> kf e \<noteq> 0
           \<and> Pp ! m ! n
             = sum_list (map (\<lambda>c. gauss_hp c ! m * gauss_hp c ! n
                                    * determinant (Jacobian_3D e (gauss_dh c))) gauss_counters)
               * oneOverQ e)
   \<and> (case getDampTensorC123 tinverse e of
         Inl err \<Rightarrow> err = PermeabilityZero
           \<and> (fst (perm e) = 0 \<or> fst (snd (perm e)) = 0 \<or> snd (snd (perm e)) = 0)
       | Inr C \<Rightarrow> fst (perm e) \<noteq> 0 \<and> fst (snd (perm e)) \<noteq> 0 \<and> snd (snd (perm e)) \<noteq> 0
           \<and> C k i l p
             = sum_list (map (\<lambda>c. gauss_hp c ! k
                   * tinverse [[fst (perm e), 0, 0], [0, fst (snd (perm e)), 0],
                               [0, 0, snd (snd (perm e))]] ! i ! l
                   * gauss_hp c ! p * determinant (Jacobian_3D e (gauss_dh c))) gauss_counters))
   \<and> getStiffnessTensorG12 tinverse e k i p
     = sum_list (map (\<lambda>c. dh_Global tinverse e (gauss_dh c) ! k ! i * gauss_hp c ! p
                            * determinant (Jacobian_3D e (gauss_dh c))) gauss_counters)
   \<and> getStiffnessTensorKep tinverse ops e k i l p
     = sum_list (map (\<lambda>c.
         sum_list (map (\<lambda>b.
           sum_list (map (\<lambda>a. dh_Global tinverse e (gauss_dh c) ! k ! a
                                * getTangentTensor ops (physicalProperties e ! gauss_where c) i a l b)
                       [0..<Num_Dim])
           * dh_Global tinverse e (gauss_dh c) ! p ! b) [0..<Num_Dim])
         * determinant (Jacobian_3D e (gauss_dh c))) gauss_counters)
   \<and> getExForceS e ! (m * Num_Dof + j)
     = sum_list (map (\<lambda>c. gauss_hp c ! m * determinant (Jacobian_3D e (gauss_dh c)))
                   gauss_counters)
       * bf e ! j * ((1 - poro e) * rho_s e)
   \<and> getExForceF e ! (m * Num_Dof + j + 4)
     = sum_list (map (\<lambda>c. gauss_hp c ! m * determinant (Jacobian_3D e (gauss_dh c)))
                   gauss_counters)
       * bf e ! j * (poro e * rho_f e)
   \<and> fst (update tinverse ops e) = 0"
proof -
  have msf: "getMassTensorMsf e ! m ! n
     = sum_list (map (\<lambda>c. gauss_hp c ! m * gauss_hp c ! n
                            * determinant (Jacobian_3D e (gauss_dh c))) gauss_counters)"
    using assms by (simp add: getMassTensorMsf_det_entry)
  have pp: "(case getStiffnessTensorP e of
         Inl err \<Rightarrow> err = BulkModulusZero \<and> (ks e = 0 \<or> kf e = 0)
       | Inr Pp \<Rightarrow> ks e \<noteq> 0 \<and> kf e \<noteq> 0
           \<and> Pp ! m ! n
             = sum_list (map (\<lambda>c. gauss_hp c ! m * gauss_hp c ! n
                                    * determinant (Jacobian_3D e (gauss_dh c))) gauss_counters)
               * oneOverQ e)"
  proof (cases "ks e = 0 \<or> kf e = 0")
    case True
    then show ?thesis by (simp add: getStiffnessTensorP_def)
  next
    case False
    then have "ks e \<noteq> 0" and "kf e \<noteq> 0" by simp_all
    from getStiffnessTensorP_entry [OF this assms(1) assms(2)] False
    show ?thesis by auto
  qed
  have c123: "(case getDampTensorC123 tinverse e of
         Inl err \<Rightarrow> err = PermeabilityZero
           \<and> (fst (perm e) = 0 \<or> fst (snd (perm e)) = 0 \<or> snd (snd (perm e)) = 0)
       | Inr C \<Rightarrow> fst (perm e) \<noteq> 0 \<and> fst (snd (perm e)) \<noteq> 0 \<and> snd (snd (perm e)) \<noteq> 0
           \<and> C k i l p
             = sum_list (map (\<lambda>c. gauss_hp c ! k
                   * tinverse [[fst (perm e), 0, 0], [0, fst (snd (perm e)), 0],
                               [0, 0, snd (snd (perm e))]] ! i ! l
                   * gauss_hp c ! p * determinant (Jacobian_3D e (gauss_dh c))) gauss_counters))"
  proof (cases "fst (perm e) = 0 \<or> fst (snd (perm e)) = 0 \<or> snd (snd (perm e)) = 0")
    case True
    then show ?thesis by (cases "perm e") (auto simp add: getDampTensorC123_def)
  next
    case False
    then have "fst (perm e) \<noteq> 0" and "fst (snd (perm e)) \<noteq> 0" and "snd (snd (perm e)) \<noteq> 0"
      by simp_all
    from getDampTensorC123_entry [OF this, of tinverse k i l p] False
    show ?thesis by auto
  qed
  have g12: "getStiffnessTensorG12 tinverse e k i p
     = sum_list (map (\<lambda>c. dh_Global tinverse e (gauss_dh c) ! k ! i * gauss_hp c ! p
                            * determinant (Jacobian_3D e (gauss_dh c))) gauss_counters)"
    by (rule getStiffnessTensorG12_entry)
  have kep: "getStiffnessTensorKep tinverse ops e k i l p
     = sum_list (map (\<lambda>c.
         sum_list (map (\<lambda>b.
           sum_list (map (\<lambda>a. dh_Global tinverse e (gauss_dh c) ! k ! a
                                * getTangentTensor ops (physicalProperties e ! gauss_where c) i a l b)
                       [0..<Num_Dim])
           * dh_Global tinverse e (gauss_dh c) ! p ! b) [0..<Num_Dim])
         * determinant (Jacobian_3D e (gauss_dh c))) gauss_counters)"
    by (rule getStiffnessTensorKep_entry)
  have exs: "getExForceS e ! (m * Num_Dof + j)
     = sum_list (map (\<lambda>c. gauss_hp c ! m * determinant (Jacobian_3D e (gauss_dh c)))
                   gauss_counters)
       * bf e ! j * ((1 - poro e) * rho_s e)"
    using assms(1) assms(3) by (rule getExForceS_entry)
  have exf: "getExForceF e ! (m * Num_Dof + j + 4)
     = sum_list (map (\<lambda>c. gauss_hp c ! m * determinant (Jacobian_3D e (gauss_dh c)))
                   gauss_counters)
       * bf e ! j * (poro e * rho_f e)"
    using assms(1) assms(3) by (rule getExForceF_entry)
  have upd: "fst (update tinverse ops e) = 0"
    by (rule update_status_zero)
  from msf pp c123 g12 kep exs exf upd show ?thesis by (intro conjI)
qed

theorem quadrature_takes_signed_determinant_witness:
  "0 < Num_Nodes \<and> 0 < Num_Dim
   \<and> getMassTensorMsf (cube_brick (- 1)) ! 0 ! 0
     = sum_list (map (\<lambda>c. gauss_hp c ! 0 * gauss_hp c ! 0 * (- 1)) gauss_counters)
   \<and> getStiffnessTensorKep (\<lambda>J. J) stub_material (cube_brick (- 1)) 0 0 0 0
     = sum_list (map (\<lambda>c.
         sum_list (map (\<lambda>b.
           sum_list (map (\<lambda>a. dh_Global (\<lambda>J. J) (cube_brick (- 1)) (gauss_dh c) ! 0 ! a
                                * getTangentTensor stub_material
                                    (physicalProperties (cube_brick (- 1)) ! gauss_where c) 0 a 0 b)
                       [0..<Num_Dim])
           * dh_Global (\<lambda>J. J) (cube_brick (- 1)) (gauss_dh c) ! 0 ! b) [0..<Num_Dim])
         * (- 1)) gauss_counters)
   \<and> getExForceS (cube_brick (- 1)) ! 0
     = sum_list (map (\<lambda>c. gauss_hp c ! 0 * (- 1)) gauss_counters)
       * bf (cube_brick (- 1)) ! 0
       * ((1 - poro (cube_brick (- 1))) * rho_s (cube_brick (- 1)))"
proof -
  have h: "0 < Num_Nodes" "0 < Num_Dim"
    by (simp_all add: Num_Nodes_def Num_Dim_def)
  note th = quadrature_takes_signed_determinant
    [where m = 0 and n = 0 and j = 0 and e = "cube_brick (- 1)" and tinverse = "\<lambda>J. J"
       and ops = stub_material and k = 0 and i = 0 and l = 0 and p = 0, OF h(1) h(1) h(2)]
  have a: "getMassTensorMsf (cube_brick (- 1)) ! 0 ! 0
     = sum_list (map (\<lambda>c. gauss_hp c ! 0 * gauss_hp c ! 0 * (- 1)) gauss_counters)"
    using th by (simp only: determinant_cube)
  have b: "getStiffnessTensorKep (\<lambda>J. J) stub_material (cube_brick (- 1)) 0 0 0 0
     = sum_list (map (\<lambda>c.
         sum_list (map (\<lambda>b.
           sum_list (map (\<lambda>a. dh_Global (\<lambda>J. J) (cube_brick (- 1)) (gauss_dh c) ! 0 ! a
                                * getTangentTensor stub_material
                                    (physicalProperties (cube_brick (- 1)) ! gauss_where c) 0 a 0 b)
                       [0..<Num_Dim])
           * dh_Global (\<lambda>J. J) (cube_brick (- 1)) (gauss_dh c) ! 0 ! b) [0..<Num_Dim])
         * (- 1)) gauss_counters)"
    using th by (simp only: determinant_cube)
  have c: "getExForceS (cube_brick (- 1)) ! (0 * Num_Dof + 0)
     = sum_list (map (\<lambda>c. gauss_hp c ! 0 * (- 1)) gauss_counters)
       * bf (cube_brick (- 1)) ! 0
       * ((1 - poro (cube_brick (- 1))) * rho_s (cube_brick (- 1)))"
    using th by (simp only: determinant_cube)
  from h a b c show ?thesis by simp
qed

text \<open>
  Claim C2, as stated, fails on the mirrored cube.  Its Jacobian determinant is \<open>- 1\<close> at
  every Gauss point; the weights are \<open>- 1\<close>; \<^verbatim>\<open>getStiffnessTensorP\<close> and
  \<^verbatim>\<open>getDampTensorC123\<close> return a tensor and no error; and the mass tensor is the
  negative of that of the cube.
\<close>

theorem inverted_brick_integrates:
  "list_all (\<lambda>c. det_of_Jacobian (cube_brick (- 1)) c \<le> 0) gauss_counters
   \<and> map (gauss_weight (cube_brick (- 1))) gauss_counters = [- 1, - 1, - 1, - 1, - 1, - 1, - 1, - 1]
   \<and> (case getStiffnessTensorP (cube_brick (- 1)) of Inl err \<Rightarrow> False | Inr Pp \<Rightarrow> True)
   \<and> (case getDampTensorC123 (\<lambda>J. J) (cube_brick (- 1)) of Inl err \<Rightarrow> False | Inr C \<Rightarrow> True)
   \<and> getMassTensorMsf (cube_brick (- 1)) ! 0 ! 0 = - getMassTensorMsf (cube_brick 1) ! 0 ! 0"
proof -
  have w: "map (gauss_weight (cube_brick (- 1))) gauss_counters
           = [- 1, - 1, - 1, - 1, - 1, - 1, - 1, - 1]"
    by (simp add: gauss_counters_eq gauss_weight_def det_of_Jacobian_cube wts_def)
  have d: "list_all (\<lambda>c. det_of_Jacobian (cube_brick (- 1)) c \<le> 0) gauss_counters"
    by (simp add: gauss_counters_eq det_of_Jacobian_cube)
  have p: "(case getStiffnessTensorP (cube_brick (- 1)) of Inl err \<Rightarrow> False | Inr Pp \<Rightarrow> True)"
    by (simp add: getStiffnessTensorP_def cube_brick_def)
  have c: "(case getDampTensorC123 (\<lambda>J. J) (cube_brick (- 1)) of
             Inl err \<Rightarrow> False | Inr C \<Rightarrow> True)"
    by (simp add: getDampTensorC123_def cube_brick_def)
  have m: "getMassTensorMsf (cube_brick (- 1)) ! 0 ! 0 = - getMassTensorMsf (cube_brick 1) ! 0 ! 0"
    by (simp add: getMassTensorMsf_entry Num_Nodes_def gauss_counters_eq gauss_weight_def
        det_of_Jacobian_cube wts_def)
  from w d p c m show ?thesis by simp
qed

subsection \<open>The resisting force\<close>

lemma length_nodal_vector: "length (nodal_vector e) = Num_ElemDof"
  by (simp add: nodal_vector_def nodes_of_def length_concat comp_def upt_Nodes upt_Dof
      Num_ElemDof_def)

lemma addMatrixVector_zero:
  "addMatrixVector 0 (replicate n 0) m v 1 =
     map (\<lambda>i. sum_list (map (\<lambda>j. m i j * v ! j) [0..<length v])) [0..<n]"
  by (simp add: addMatrixVector_def)

lemma addVector_map:
  "addVector 1 (map f [0..<n]) other (- 1) = map (\<lambda>i. f i - other ! i) [0..<n]"
  by (simp add: addVector_def)

lemma getStiff_tangent:
  "ks e \<noteq> 0 \<Longrightarrow> kf e \<noteq> 0 \<Longrightarrow>
   getStiff 1 ts K e = Inr (stored_K ts e K, stored_K ts e K, e)"
  by (simp add: getStiff_def getStiffnessTensorP_value stored_K_def Let_def)

lemma getResistingForce_eq:
  "\<not> list_ex (\<lambda>n. length (getTrialDisp n) \<noteq> Num_Dof) (nodes_of e) \<Longrightarrow>
   ks e \<noteq> 0 \<Longrightarrow> kf e \<noteq> 0 \<Longrightarrow>
   getResistingForce dead_srf ts K e =
     Inr (if isDead e
          then map (\<lambda>x. x * dead_srf)
                 (spec_resistingForce (stored_K ts e K) (nodal_vector e) (load e) (eleQ e))
          else spec_resistingForce (stored_K ts e K) (nodal_vector e) (load e) (eleQ e),
          stored_K ts e K, e)
   \<and> getTangentStiff dead_srf ts K e =
     Inr (if isDead e then (\<lambda>r c. stored_K ts e K r c * dead_srf) else stored_K ts e K,
          stored_K ts e K, e)"
  by (cases "eleQ e")
    (simp_all add: getResistingForce_def getTangentStiff_def getStiff_tangent Let_def
      addMatrixVector_zero addVector_map spec_resistingForce_def length_nodal_vector)

lemma getResistingForce_sizes:
  "list_ex (\<lambda>n. length (getTrialDisp n) \<noteq> Num_Dof) (nodes_of e) \<Longrightarrow>
   getResistingForce dead_srf ts K e = Inl SizesIncompatible"
  by (simp add: getResistingForce_def)

lemma getResistingForce_bulk_modulus:
  "\<not> list_ex (\<lambda>n. length (getTrialDisp n) \<noteq> Num_Dof) (nodes_of e) \<Longrightarrow>
   ks e = 0 \<or> kf e = 0 \<Longrightarrow>
   getResistingForce dead_srf ts K e = Inl BulkModulusZero"
  by (auto simp add: getResistingForce_def getTangentStiff_def getStiff_def
      getStiffnessTensorP_def)

lemma nodes_of_cube_sizes:
  "\<not> list_ex (\<lambda>n. length (getTrialDisp n) \<noteq> Num_Dof)
       (nodes_of ((cube_brick sx)\<lparr>load := l, isDead := d\<rparr>))"
  by (simp add: nodes_of_def upt_Nodes cube_brick_def cube_nodes_def corner_signs_def
      Num_Dof_def)

lemma nodal_vector_cube:
  "nodal_vector ((cube_brick sx)\<lparr>load := l, isDead := d\<rparr>) = replicate 56 0"
  by (simp add: nodal_vector_def nodes_of_def upt_Nodes upt_Dof cube_brick_def cube_nodes_def
      corner_signs_def eval_nat_numeral)

lemma matvec_zero: "sum_list (map (\<lambda>j. m j * replicate n (0::real) ! j) [0..<n]) = 0"
proof -
  have "map (\<lambda>j. m j * replicate n (0::real) ! j) [0..<n] = map (\<lambda>_. 0) [0..<n]"
    by (rule map_cong) simp_all
  then have "sum_list (map (\<lambda>j. m j * replicate n (0::real) ! j) [0..<n])
             = sum_list (map (\<lambda>_. 0::real) [0..<n])"
    by (rule arg_cong)
  also have "\<dots> = 0"
    by simp
  finally show ?thesis .
qed

lemma length_spec_resistingForce: "length (spec_resistingForce K u ld q) = 56"
  by (simp add: spec_resistingForce_def Num_ElemDof_def)

text \<open>
  When \<open>K u\<close> balances the applied load, the force of the specification is zero in
  every entry.
\<close>

lemma spec_resistingForce_equilibrium:
  assumes "i < Num_ElemDof"
    and "sum_list (map (\<lambda>j. K i j * u ! j) [0..<Num_ElemDof])
         = (if ld = [] then 0 else ld ! i) + (case q of None \<Rightarrow> 0 | Some qv \<Rightarrow> qv ! i)"
  shows "spec_resistingForce K u ld q ! i = 0"
  using assms by (simp add: spec_resistingForce_def split: option.splits)

text \<open>
  Claim C7, as the code has it.  For a brick whose nodes carry seven trial displacement
  components each and whose bulk moduli are not zero, \<^verbatim>\<open>getResistingForce\<close> returns
  \<open>K u\<close> minus the element load and minus \<^verbatim>\<open>eleQ\<close>, with \<open>K\<close> the class-wide matrix
  \<^verbatim>\<open>getTangentStiff\<close> has just filled and \<open>u\<close> the trial displacements of the nodes;
  a dead brick returns this vector times \<^verbatim>\<open>dead_srf\<close>.  A live brick's
  \<^verbatim>\<open>getTangentStiff\<close> returns that same \<open>K\<close>.
\<close>

theorem getResistingForce_is_Ku_minus_load:
  "\<not> list_ex (\<lambda>n. length (getTrialDisp n) \<noteq> Num_Dof) (nodes_of e) \<Longrightarrow>
   ks e \<noteq> 0 \<Longrightarrow> kf e \<noteq> 0 \<Longrightarrow>
   getResistingForce dead_srf ts K e =
     Inr (if isDead e
          then map (\<lambda>x. x * dead_srf)
                 (spec_resistingForce (stored_K ts e K) (nodal_vector e) (load e) (eleQ e))
          else spec_resistingForce (stored_K ts e K) (nodal_vector e) (load e) (eleQ e),
          stored_K ts e K, e)
   \<and> getTangentStiff dead_srf ts K e =
     Inr (if isDead e then (\<lambda>r c. stored_K ts e K r c * dead_srf) else stored_K ts e K,
          stored_K ts e K, e)"
  by (rule getResistingForce_eq)

theorem getResistingForce_is_Ku_minus_load_witness:
  "\<not> list_ex (\<lambda>n. length (getTrialDisp n) \<noteq> Num_Dof) (nodes_of (cube_brick 1))
   \<and> ks (cube_brick 1) \<noteq> 0 \<and> kf (cube_brick 1) \<noteq> 0
   \<and> getResistingForce (1 / 1000000) unit_tensors (\<lambda>r c. 0) (cube_brick 1) =
       Inr (spec_resistingForce (stored_K unit_tensors (cube_brick 1) (\<lambda>r c. 0))
              (nodal_vector (cube_brick 1)) [] None,
            stored_K unit_tensors (cube_brick 1) (\<lambda>r c. 0), cube_brick 1)"
proof -
  have ok: "\<not> list_ex (\<lambda>n. length (getTrialDisp n) \<noteq> Num_Dof) (nodes_of (cube_brick 1))"
    by (simp add: nodes_of_def upt_Nodes cube_brick_def cube_nodes_def
        corner_signs_def Num_Dof_def)
  have k: "ks (cube_brick 1) \<noteq> 0" "kf (cube_brick 1) \<noteq> 0"
    by (simp_all add: cube_brick_def)
  have f: "load (cube_brick 1) = []" "eleQ (cube_brick 1) = None" "\<not> isDead (cube_brick 1)"
    by (simp_all add: cube_brick_def)
  show ?thesis
    using ok k f
      getResistingForce_is_Ku_minus_load [OF ok k, of "1 / 1000000" unit_tensors "\<lambda>r c. 0"]
    by simp
qed

text \<open>
  Claim C7, as stated, fails on a dead brick.  With zero trial displacements and a unit
  element load \<open>K u\<close> minus the load has first entry \<open>- 1\<close>; the brick, deactivated and
  with a reduction factor of one millionth, returns \<open>- 1 / 1000000\<close> there.
\<close>

theorem dead_brick_resisting_force_scaled:
  "(case getResistingForce (1 / 1000000) unit_tensors (\<lambda>r c. 0) dead_loaded_brick of
      Inl err \<Rightarrow> False
    | Inr (P, K', e') \<Rightarrow>
        P ! 0 = - (1 / 1000000)
        \<and> spec_resistingForce K' (nodal_vector dead_loaded_brick) (load dead_loaded_brick)
            (eleQ dead_loaded_brick) ! 0 = - 1)"
proof -
  have ok: "\<not> list_ex (\<lambda>n. length (getTrialDisp n) \<noteq> Num_Dof) (nodes_of dead_loaded_brick)"
    unfolding dead_loaded_brick_def by (rule nodes_of_cube_sizes)
  have k: "ks dead_loaded_brick \<noteq> 0" "kf dead_loaded_brick \<noteq> 0"
    by (simp_all add: dead_loaded_brick_def cube_brick_def)
  have u: "nodal_vector dead_loaded_brick = replicate 56 0"
    unfolding dead_loaded_brick_def by (rule nodal_vector_cube)
  have s0: "spec_resistingForce K' (nodal_vector dead_loaded_brick) (load dead_loaded_brick)
            (eleQ dead_loaded_brick) ! 0 = - 1" for K'
    unfolding u
    by (simp add: spec_resistingForce_def Num_ElemDof_def matvec_zero dead_loaded_brick_def
        cube_brick_def)
  have d: "isDead dead_loaded_brick"
    by (simp add: dead_loaded_brick_def)
  have r: "getResistingForce (1 / 1000000) unit_tensors (\<lambda>r c. 0) dead_loaded_brick =
     Inr (map (\<lambda>x. x * (1 / 1000000))
            (spec_resistingForce (stored_K unit_tensors dead_loaded_brick (\<lambda>r c. 0))
               (nodal_vector dead_loaded_brick) (load dead_loaded_brick) (eleQ dead_loaded_brick)),
          stored_K unit_tensors dead_loaded_brick (\<lambda>r c. 0), dead_loaded_brick)"
    using getResistingForce_eq [OF ok k, of "1 / 1000000" unit_tensors "\<lambda>r c. 0"] d by simp
  show ?thesis
    unfolding r by (simp add: s0 length_spec_resistingForce)
qed

subsection \<open>Sending and receiving\<close>

lemma list_of_length_4: "length xs = 4 \<Longrightarrow> \<exists>a b c d. xs = [a, b, c, d]"
  by (auto simp add: eval_nat_numeral length_Suc_conv)

lemma list_of_length_16:
  "length xs = 16 \<Longrightarrow>
   \<exists>a0 a1 a2 a3 a4 a5 a6 a7 a8 a9 a10 a11 a12 a13 a14 a15.
     xs = [a0, a1, a2, a3, a4, a5, a6, a7, a8, a9, a10, a11, a12, a13, a14, a15]"
  by (auto simp add: eval_nat_numeral length_Suc_conv)

lemma recvData_sendData:
  assumes "length (rData src) = 4" "length (kData src) = 16"
    and "length (rData dst) = 4" "length (kData dst) = 16"
  shows "recvData (snd (sendData cp src)) dst = (0, dst\<lparr>rData := rData src, kData := kData src\<rparr>)"
proof -
  obtain a b c d where r: "rData src = [a, b, c, d]"
    using list_of_length_4 [OF assms(1)] by blast
  obtain a' b' c' d' where r': "rData dst = [a', b', c', d']"
    using list_of_length_4 [OF assms(3)] by blast
  obtain k0 k1 k2 k3 k4 k5 k6 k7 k8 k9 k10 k11 k12 k13 k14 k15
    where k: "kData src = [k0, k1, k2, k3, k4, k5, k6, k7, k8, k9, k10, k11, k12, k13, k14, k15]"
    using list_of_length_16 [OF assms(2)] by blast
  obtain l0 l1 l2 l3 l4 l5 l6 l7 l8 l9 l10 l11 l12 l13 l14 l15
    where l: "kData dst = [l0, l1, l2, l3, l4, l5, l6, l7, l8, l9, l10, l11, l12, l13, l14, l15]"
    using list_of_length_16 [OF assms(4)] by blast
  show ?thesis
    by (simp add: recvData_def sendData_def sendDoubles_def receiveDoubles_def r r' k l Let_def)
qed

text \<open>
  Claim C9, as the code has it.  \<^verbatim>\<open>CrossSectionKR::sendData\<close> followed by
  \<^verbatim>\<open>recvData\<close> on another section restores the 4 entries of \<open>rData\<close> and the 16 of
  \<open>kData\<close>, both calls with status 0.  \<^verbatim>\<open>sendSelf\<close> and \<^verbatim>\<open>recvSelf\<close> of the brick
  are not implemented: they return 0, send nothing and leave the receiver as it was.
\<close>

theorem send_receive_restores:
  "length (rData src) = 4 \<Longrightarrow> length (kData src) = 16 \<Longrightarrow>
   length (rData dst) = 4 \<Longrightarrow> length (kData dst) = 16 \<Longrightarrow>
   fst (sendData cp src) = 0
   \<and> recvData (snd (sendData cp src)) dst = (0, dst\<lparr>rData := rData src, kData := kData src\<rparr>)
   \<and> sendSelf comm e = (0, comm)
   \<and> recvSelf comm e' = (0, e')"
  using recvData_sendData [of src dst cp]
  by (simp add: sendData_def sendDoubles_def sendSelf_def recvSelf_def Let_def)

theorem send_receive_restores_witness:
  "length (rData section_src) = 4 \<and> length (kData section_src) = 16
   \<and> length (rData section_zero) = 4 \<and> length (kData section_zero) = 16
   \<and> recvData (snd (sendData Map.empty section_src)) section_zero = (0, section_src)
   \<and> recvSelf (snd (sendSelf Map.empty (cube_brick 1))) blank_brick = (0, blank_brick)"
  using send_receive_restores
    [of section_src section_zero Map.empty Map.empty "cube_brick 1" blank_brick]
  by (simp add: section_src_def section_zero_def sendSelf_def)

text \<open>
  Claim C9, as stated, fails for the brick: after the brick on the cube (porosity 0.4) is
  sent and a blank brick receives, the receiver's porosity is still 0.
\<close>

theorem brick_state_not_restored:
  "poro (snd (recvSelf (snd (sendSelf Map.empty (cube_brick 1))) blank_brick))
     \<noteq> poro (cube_brick 1)"
  by (simp add: recvSelf_def sendSelf_def blank_brick_def cube_brick_def)

section \<open>Properties of the Radau weights\<close>

lemma fold_modify_Inl: "fold (modify f) is (Inl err) = Inl err"
  by (induction "is") (simp_all add: modify_def)

lemma getSectionWeights_one: "getSectionWeights 1 L [w0] = Inr [1]"
  by (simp add: getSectionWeights_def section_weights_table_def assign_def store_def modify_def)

lemma getSectionWeights_two: "getSectionWeights 2 L [w0, w1] = Inr [0.25, 0.75]"
  by (simp add: getSectionWeights_def section_weights_table_def assign_def store_def modify_def
      upt_rec)

text \<open>
  With room for a fourth entry the case of three sections leaves \<open>wt[0]\<close> as the caller
  had it, halved, and \<open>wt[3]\<close> unscaled.
\<close>

lemma getSectionWeights_three_longer_array:
  "getSectionWeights 3 L [w0, w1, w2, w3] =
     Inr [w0 * 0.5, 0.1111111111, 0.512485826, 0.7528061254]"
  by (simp add: getSectionWeights_def section_weights_table_def assign_def store_def modify_def
      upt_rec)

lemma getSectionWeights_out_of_bounds:
  "3 \<le> numSections \<Longrightarrow> numSections \<le> 10 \<Longrightarrow> length wt = numSections \<Longrightarrow>
   getSectionWeights numSections L wt = Inl (OutOfBounds numSections)"
proof -
  assume "3 \<le> numSections" "numSections \<le> 10" and len: "length wt = numSections"
  then have "numSections = 3 \<or> numSections = 4 \<or> numSections = 5 \<or> numSections = 6
             \<or> numSections = 7 \<or> numSections = 8 \<or> numSections = 9 \<or> numSections = 10"
    by presburger
  then show ?thesis
    using len
    by (elim disjE)
      (simp_all add: getSectionWeights_def section_weights_table_def assign_def store_def
        fold_modify_Inl)
qed

text \<open>The sibling routine for the locations stays within the array for 1 to 10 sections.\<close>

lemma getSectionLocations_in_bounds:
  "1 \<le> numSections \<Longrightarrow> numSections \<le> 10 \<Longrightarrow> length xi = numSections \<Longrightarrow>
   \<exists>ys. getSectionLocations numSections L xi = Inr ys \<and> length ys = numSections"
proof -
  assume "1 \<le> numSections" "numSections \<le> 10" and len: "length xi = numSections"
  then have "numSections = 1 \<or> numSections = 2 \<or> numSections = 3 \<or> numSections = 4
             \<or> numSections = 5 \<or> numSections = 6 \<or> numSections = 7 \<or> numSections = 8
             \<or> numSections = 9 \<or> numSections = 10"
    by presburger
  then show ?thesis
    using len
    by (elim disjE)
      (simp_all add: getSectionLocations_def section_locations_table_def assign_def store_def
        modify_def upt_rec)
qed

text \<open>
  Claim C10.  For 1 to 10 sections and an array of that length \<^verbatim>\<open>getSectionWeights\<close>
  is to write only the indices 0 to \<open>numSections - 1\<close>.  For three sections and an array
  of three entries the case stores to the indices 1, 2 and 3: the third store is outside
  the array.
\<close>

theorem getSectionWeights_three_out_of_bounds:
  "getSectionWeights 3 L [w0, w1, w2] = Inl (OutOfBounds 3)"
  by (simp add: getSectionWeights_def section_weights_table_def assign_def store_def
      fold_modify_Inl)

section \<open>Properties of the state container\<close>

text \<open>
  Claim C6.  Two calls of \<open>commitState\<close> in a row, with no \<open>setTrialStrain\<close> between
  them, both report success, and the whole state after the second call is the state after
  the first.
\<close>

theorem commitState_idempotent:
  "fst (commitState s) = 0 \<and> fst (commitState (snd (commitState s))) = 0
   \<and> snd (commitState (snd (commitState s))) = snd (commitState s)"
  by (simp add: commitState_def)

text \<open>What a commit makes permanent is what \<open>getStress\<close> and \<open>getTangent\<close> returned.\<close>

lemma commitState_commits_the_values_read:
  "committedStress (snd (commitState s)) = getStress s
   \<and> committedTangent (snd (commitState s)) = getTangent s"
  by (simp add: commitState_def getStress_def getTangent_def)

text \<open>
  A trial that leaves the elastic range and is then discarded: after the revert the
  tangent is the committed one again, not the one the trial computed.
\<close>

lemma revert_discards_the_trial_tangent:
  "getTangent (snd (revertToLastCommit (s\<lparr>trialStress := sig, tangentOperator := tg\<rparr>)))
   = committedTangent s"
  by (simp add: revertToLastCommit_def getTangent_def)



section \<open>Properties of the assembly\<close>

text \<open>A fold of steps that each add their own value to an entry adds the sum of the values.\<close>

lemma fold_pointwise_sum:
  fixes F :: "'a \<Rightarrow> ('k \<Rightarrow> real) \<Rightarrow> ('k \<Rightarrow> real)"
  assumes "\<And>x A. F x A p = A p + c x"
  shows "fold F xs A p = A p + sum_list (map c xs)"
proof (induction xs arbitrary: A)
  case Nil
  show ?case by simp
next
  case (Cons x xs)
  have "fold F (x # xs) A p = fold F xs (F x A) p"
    by simp
  also have "\<dots> = F x A p + sum_list (map c xs)"
    by (rule Cons.IH)
  also have "\<dots> = A p + sum_list (map c (x # xs))"
    by (simp add: assms)
  finally show ?case .
qed

lemma addTangentEntry_apply:
  "addTangentEntry (+) el rc A p
   = A p + (if START_EQN_NUM \<le> equationNumbers el ! fst rc
               \<and> START_EQN_NUM \<le> equationNumbers el ! snd rc
               \<and> (equationNumbers el ! fst rc, equationNumbers el ! snd rc) = p
            then localTangent el (fst rc) (snd rc) else 0)"
  by (auto simp add: addTangentEntry_def Let_def)

lemma fold_addTangentEntry_apply:
  "fold (addTangentEntry (+) el) rcs A p
   = A p + sum_list (map (\<lambda>rc. if START_EQN_NUM \<le> equationNumbers el ! fst rc
                                   \<and> START_EQN_NUM \<le> equationNumbers el ! snd rc
                                   \<and> (equationNumbers el ! fst rc, equationNumbers el ! snd rc) = p
                                then localTangent el (fst rc) (snd rc) else 0) rcs)"
  by (rule fold_pointwise_sum) (rule addTangentEntry_apply)

lemma addElementTangent_apply:
  "addElementTangent (+) el A p = A p + spec_tangent_contribution el p"
  by (simp only: addElementTangent_def spec_tangent_contribution_def fold_addTangentEntry_apply)

lemma fold_addElementTangent_apply:
  "fold (addElementTangent (+)) els A p
   = A p + sum_list (map (\<lambda>el. spec_tangent_contribution el p) els)"
  by (rule fold_pointwise_sum) (rule addElementTangent_apply)

lemma formTangent_sum:
  "formTangent (+) els p = sum_list (map (\<lambda>el. spec_tangent_contribution el p) els)"
  by (simp add: formTangent_def fold_addElementTangent_apply)

lemma addResidualEntry_apply:
  "addResidualEntry (+) el r b g
   = b g + (if START_EQN_NUM \<le> equationNumbers el ! r \<and> equationNumbers el ! r = g
            then localResidual el ! r else 0)"
  by (auto simp add: addResidualEntry_def Let_def)

lemma fold_addResidualEntry_apply:
  "fold (addResidualEntry (+) el) rs b g
   = b g + sum_list (map (\<lambda>r. if START_EQN_NUM \<le> equationNumbers el ! r
                                  \<and> equationNumbers el ! r = g
                               then localResidual el ! r else 0) rs)"
  by (rule fold_pointwise_sum) (rule addResidualEntry_apply)

lemma addElementResidual_apply:
  "addElementResidual (+) el b g = b g + spec_residual_contribution el g"
  by (simp only: addElementResidual_def spec_residual_contribution_def
      fold_addResidualEntry_apply)

lemma fold_addElementResidual_apply:
  "fold (addElementResidual (+)) els b g
   = b g + sum_list (map (\<lambda>el. spec_residual_contribution el g) els)"
  by (rule fold_pointwise_sum) (rule addElementResidual_apply)

lemma formResidual_sum:
  "formResidual (+) els g = sum_list (map (\<lambda>el. spec_residual_contribution el g) els)"
  by (simp add: formResidual_def fold_addElementResidual_apply)

lemma sum_list_map_permuted:
  fixes f :: "'a \<Rightarrow> real"
  assumes "mset xs = mset ys"
  shows "sum_list (map f xs) = sum_list (map f ys)"
proof -
  have "mset (map f xs) = mset (map f ys)"
    using assms by (metis mset_map)
  then show ?thesis
    by (metis sum_mset_sum_list)
qed

text \<open>
  Claim C8, as the model has it.  In exact arithmetic every entry of the global tangent
  and of the global residual is the sum, over the elements visited, of what each element
  contributes to that entry; hence two traversals that visit the same elements the same
  number of times, in any order, form the same tangent and the same residual.
\<close>

theorem exact_assembly_is_the_sum:
  "formTangent (+) els p = sum_list (map (\<lambda>el. spec_tangent_contribution el p) els)
   \<and> formResidual (+) els g = sum_list (map (\<lambda>el. spec_residual_contribution el g) els)
   \<and> (mset els = mset els' \<longrightarrow>
        formTangent (+) els = formTangent (+) els'
        \<and> formResidual (+) els = formResidual (+) els')"
proof -
  have "formTangent (+) els = formTangent (+) els'" if "mset els = mset els'"
    using sum_list_map_permuted [OF that] by (simp add: fun_eq_iff formTangent_sum)
  moreover have "formResidual (+) els = formResidual (+) els'" if "mset els = mset els'"
    using sum_list_map_permuted [OF that] by (simp add: fun_eq_iff formResidual_sum)
  ultimately show ?thesis
    by (simp add: formTangent_sum formResidual_sum)
qed

theorem exact_assembly_is_the_sum_witness:
  "mset [contribution_a, contribution_b, contribution_c]
     = mset [contribution_c, contribution_a, contribution_b]
   \<and> formTangent (+) [contribution_a, contribution_b, contribution_c]
     = formTangent (+) [contribution_c, contribution_a, contribution_b]
   \<and> formResidual (+) [contribution_a, contribution_b, contribution_c]
     = formResidual (+) [contribution_c, contribution_a, contribution_b]
   \<and> formTangent (+) [contribution_a, contribution_b, contribution_c] (1, 1) = 10
   \<and> formResidual (+) [contribution_a, contribution_b, contribution_c] 1 = 312"
proof -
  have m: "mset [contribution_a, contribution_b, contribution_c]
           = mset [contribution_c, contribution_a, contribution_b]"
    by simp
  have t: "sum_list (map (\<lambda>el. spec_tangent_contribution el (1, 1))
                      [contribution_a, contribution_b, contribution_c]) = 10"
    by (simp add: spec_tangent_contribution_def local_pairs_def contribution_a_def
        contribution_b_def contribution_c_def START_EQN_NUM_def upt_rec)
  have r: "sum_list (map (\<lambda>el. spec_residual_contribution el 1)
                      [contribution_a, contribution_b, contribution_c]) = 312"
    by (simp add: spec_residual_contribution_def contribution_a_def contribution_b_def
        contribution_c_def START_EQN_NUM_def upt_rec)
  note th = exact_assembly_is_the_sum
    [of "[contribution_a, contribution_b, contribution_c]" "(1, 1)" 1
        "[contribution_c, contribution_a, contribution_b]"]
  have "formTangent (+) [contribution_a, contribution_b, contribution_c] (1, 1) = 10"
    using th t by (simp only:)
  moreover have "formResidual (+) [contribution_a, contribution_b, contribution_c] 1 = 312"
    using th r by (simp only:)
  moreover have "formTangent (+) [contribution_a, contribution_b, contribution_c]
                 = formTangent (+) [contribution_c, contribution_a, contribution_b]"
    and "formResidual (+) [contribution_a, contribution_b, contribution_c]
         = formResidual (+) [contribution_c, contribution_a, contribution_b]"
    using th m by blast+
  ultimately show ?thesis
    using m by blast
qed

subsection \<open>Accumulating in doubles\<close>

lemma floor_log2_binade:
  assumes "2 ^ k \<le> x" "x < 2 ^ Suc k"
  shows "\<lfloor>log 2 x\<rfloor> = int k"
proof -
  have pos: "0 < x"
    using assms(1) by (meson less_le_trans zero_less_numeral zero_less_power)
  have a: "(2::real) powr real_of_int (int k) = 2 ^ k"
    by (simp add: powr_realpow)
  have b: "(2::real) powr real_of_int (int k + 1) = 2 ^ Suc k"
    using powr_realpow [of "2::real" "Suc k"] by (simp add: add.commute)
  have "2 powr real_of_int (int k) \<le> x \<and> x < 2 powr real_of_int (int k + 1)"
    unfolding a b using assms by simp
  then show ?thesis
    using floor_log_eq_powr_iff [of x 2 "int k"] pos by simp
qed

lemma binary64_round_big: "binary64_round 10000000000000000 = 10000000000000000"
proof -
  have "\<lfloor>log 2 (10000000000000000::real)\<rfloor> = int 53"
    by (rule floor_log2_binade) simp_all
  then show ?thesis
    by (simp add: binary64_round_def ties_to_even_def Let_def)
qed

lemma binary64_round_big_plus_one: "binary64_round 10000000000000001 = 10000000000000000"
proof -
  have "\<lfloor>log 2 (10000000000000001::real)\<rfloor> = int 53"
    by (rule floor_log2_binade) simp_all
  then show ?thesis
    by (simp add: binary64_round_def ties_to_even_def Let_def)
qed

lemma binary64_round_one: "binary64_round 1 = 1"
  by (simp add: binary64_round_def ties_to_even_def Let_def)

lemma binary64_round_zero: "binary64_round 0 = 0"
  by (simp add: binary64_round_def)

text \<open>
  Claim C8, as stated, fails when the accumulators are doubles.  Three elements
  contribute \<open>10^16\<close>, 1 and \<open>- 10^16\<close> to the same entry: visited in this order the
  entry ends as 0, because \<open>10^16 + 1\<close> rounds to \<open>10^16\<close>; with the last two exchanged
  it ends as 1.
\<close>

theorem binary64_assembly_depends_on_order:
  "mset [point_load 10000000000000000, point_load 1, point_load (- 10000000000000000)]
     = mset [point_load 10000000000000000, point_load (- 10000000000000000), point_load 1]
   \<and> formResidual binary64_add
       [point_load 10000000000000000, point_load 1, point_load (- 10000000000000000)] 0 = 0
   \<and> formResidual binary64_add
       [point_load 10000000000000000, point_load (- 10000000000000000), point_load 1] 0 = 1
   \<and> formTangent binary64_add
       [point_load 10000000000000000, point_load 1, point_load (- 10000000000000000)] (0, 0) = 0
   \<and> formTangent binary64_add
       [point_load 10000000000000000, point_load (- 10000000000000000), point_load 1] (0, 0) = 1"
  by (simp add: formResidual_def formTangent_def addElementResidual_def addElementTangent_def
      addResidualEntry_def addTangentEntry_def local_pairs_def point_load_def START_EQN_NUM_def
      binary64_add_def binary64_round_big binary64_round_big_plus_one binary64_round_one
      binary64_round_zero Let_def)


end
